theory Spec2Isabelle
  imports Main
begin

section \<open>Python values\<close>

text \<open>
  The values that travel through the SDK: JSON documents, keyword arguments, table cells.
  A \<open>uuid.UUID\<close> object is represented by its canonical text, which is what \<open>str()\<close>
  returns for it.  Dictionaries are association lists in insertion order (keys distinct).
  Floating-point numbers are left out.
\<close>

datatype uuid = UUID string

datatype pyval =
    PNone
  | PBool bool
  | PInt int
  | PStr string
  | PUuid uuid
  | PList "pyval list"
  | PDict "(string \<times> pyval) list"

type_synonym pydict = "(string \<times> pyval) list"

text \<open>Truth value testing, as used by \<open>not x\<close>, \<open>x or y\<close> and \<open>if x\<close>.\<close>

fun truthy :: "pyval \<Rightarrow> bool" where
  "truthy PNone = False"
| "truthy (PBool b) = b"
| "truthy (PInt i) = (i \<noteq> 0)"
| "truthy (PStr s) = (s \<noteq> [])"
| "truthy (PUuid u) = True"
| "truthy (PList xs) = (xs \<noteq> [])"
| "truthy (PDict kvs) = (kvs \<noteq> [])"

definition py_or :: "pyval \<Rightarrow> pyval \<Rightarrow> pyval" where
  "py_or a b = (if truthy a then a else b)"

text \<open>\<open>d.get(k)\<close> and \<open>d.get(k, default)\<close>.\<close>

definition dict_get :: "pydict \<Rightarrow> string \<Rightarrow> pyval \<Rightarrow> pyval" where
  "dict_get d k dflt = (case map_of d k of None \<Rightarrow> dflt | Some v \<Rightarrow> v)"

text \<open>\<open>d[k] = v\<close>: an existing key keeps its position, a new key goes last.\<close>

fun dict_set :: "pydict \<Rightarrow> string \<Rightarrow> pyval \<Rightarrow> pydict" where
  "dict_set [] k v = [(k, v)]"
| "dict_set ((k', v') # d) k v = (if k' = k then (k, v) # d else (k', v') # dict_set d k v)"

subsection \<open>\<open>str()\<close> and \<open>repr()\<close>\<close>

definition digit_char :: "nat \<Rightarrow> char" where
  "digit_char d = char_of (of_char (CHR ''0'') + d)"

function dec :: "nat \<Rightarrow> string" where
  "dec n = (if n < 10 then [digit_char n] else dec (n div 10) @ [digit_char (n mod 10)])"
  by pat_completeness auto
termination
  by (relation "measure id") auto

declare dec.simps [simp del]

definition str_int :: "int \<Rightarrow> string" where
  "str_int i = (if i < 0 then CHR ''-'' # dec (nat (- i)) else dec (nat i))"

definition hex_char :: "nat \<Rightarrow> char" where
  "hex_char d = (if d < 10 then digit_char d else char_of (of_char (CHR ''a'') + (d - 10)))"

text \<open>
  \<open>repr()\<close> of a string: single quotes unless the text holds a single quote and no double
  quote; the quote, the backslash and control characters are escaped.  Characters are
  bytes here, and bytes from 128 on are kept as they are.
\<close>

definition repr_char :: "char \<Rightarrow> char \<Rightarrow> string" where
  "repr_char q c =
     (if c = q \<or> c = CHR 0x5C then [CHR 0x5C, c]
      else if c = CHR 0x09 then [CHR 0x5C, CHR ''t'']
      else if c = CHR 0x0A then [CHR 0x5C, CHR ''n'']
      else if c = CHR 0x0D then [CHR 0x5C, CHR ''r'']
      else if (of_char c :: nat) < 32 \<or> (of_char c :: nat) = 127
        then [CHR 0x5C, CHR ''x'', hex_char (of_char c div 16), hex_char (of_char c mod 16)]
      else [c])"

definition repr_str :: "string \<Rightarrow> string" where
  "repr_str s =
     (let q = (if CHR 0x27 \<in> set s \<and> CHR 0x22 \<notin> set s then CHR 0x22 else CHR 0x27)
      in [q] @ concat (map (repr_char q) s) @ [q])"

fun py_repr :: "pyval \<Rightarrow> string"
  and repr_elems :: "pyval list \<Rightarrow> string"
  and repr_items :: "(string \<times> pyval) list \<Rightarrow> string" where
  "py_repr PNone = ''None''"
| "py_repr (PBool b) = (if b then ''True'' else ''False'')"
| "py_repr (PInt i) = str_int i"
| "py_repr (PStr s) = repr_str s"
| "py_repr (PUuid (UUID s)) = ''UUID('' @ repr_str s @ '')''"
| "py_repr (PList xs) = ''['' @ repr_elems xs @ '']''"
| "py_repr (PDict kvs) = ''{'' @ repr_items kvs @ ''}''"
| "repr_elems [] = []"
| "repr_elems [x] = py_repr x"
| "repr_elems (x # y # xs) = py_repr x @ '', '' @ repr_elems (y # xs)"
| "repr_items [] = []"
| "repr_items [(k, v)] = repr_str k @ '': '' @ py_repr v"
| "repr_items ((k, v) # kv # kvs) = repr_str k @ '': '' @ py_repr v @ '', '' @ repr_items (kv # kvs)"

definition py_str :: "pyval \<Rightarrow> string" where
  "py_str v = (case v of PStr s \<Rightarrow> s | PUuid (UUID s) \<Rightarrow> s | _ \<Rightarrow> py_repr v)"

definition type_name :: "pyval \<Rightarrow> string" where
  "type_name v = (case v of PNone \<Rightarrow> ''NoneType'' | PBool _ \<Rightarrow> ''bool'' | PInt _ \<Rightarrow> ''int''
     | PStr _ \<Rightarrow> ''str'' | PUuid _ \<Rightarrow> ''UUID'' | PList _ \<Rightarrow> ''list'' | PDict _ \<Rightarrow> ''dict'')"

section \<open>Exceptions\<close>

text \<open>
  An exception is its class and its argument; \<open>str(e)\<close> is \<open>str()\<close> of the argument.
  The classes of \<open>api/exceptions.py\<close> all derive from \<open>APIError\<close>.  The type stands
  for the instances of \<open>Exception\<close>, which is what the handlers below catch.
\<close>

datatype exc_class =
    ValueError | TypeError | AttributeError | JSONDecodeError
  | APIError | AuthenticationError | NotFoundError | ValidationError
  | RateLimitError | ConnectionError
  | OtherException string

datatype exn = Exn exc_class pyval

fun exn_class :: "exn \<Rightarrow> exc_class" where
  "exn_class (Exn c a) = c"

fun str_exn :: "exn \<Rightarrow> string" where
  "str_exn (Exn c a) = py_str a"

definition is_APIError :: "exc_class \<Rightarrow> bool" where
  "is_APIError c = (c = APIError \<or> c = AuthenticationError \<or> c = NotFoundError
     \<or> c = ValidationError \<or> c = RateLimitError \<or> c = ConnectionError)"

section \<open>Model instances\<close>

text \<open>
  \<open>models/base.py\<close> declares three unrelated bases.  An instance carries its base, its
  field values and the names of the fields that were set explicitly.
\<close>

datatype model_base = BaseModel | BaseCreateModel | BaseUpdateModel

datatype pyobj = PObj model_base pydict "string list"

fun obj_base :: "pyobj \<Rightarrow> model_base" where
  "obj_base (PObj b fs st) = b"

text \<open>\<open>obj.dict(exclude_unset=True)\<close>\<close>

fun dict_exclude_unset :: "pyobj \<Rightarrow> pydict" where
  "dict_exclude_unset (PObj b fs st) = filter (\<lambda>kv. fst kv \<in> set st) fs"

text \<open>What a call returns: plain data, one model instance, or a list of them.\<close>

datatype ret = Raw pyval | Obj pyobj | Objs "pyobj list"

definition ret_type_name :: "ret \<Rightarrow> string" where
  "ret_type_name r = (case r of Raw v \<Rightarrow> type_name v | Obj _ \<Rightarrow> ''object'' | Objs _ \<Rightarrow> ''list'')"

text \<open>Attribute read \<open>x.name\<close> on a returned value.\<close>

definition getattr :: "ret \<Rightarrow> string \<Rightarrow> exn + pyval" where
  "getattr r name =
     (case r of
        Obj (PObj b fs st) \<Rightarrow>
          (case map_of fs name of
             Some v \<Rightarrow> Inr v
           | None \<Rightarrow> Inl (Exn AttributeError (PStr (''object has no attribute '' @ repr_str name))))
      | _ \<Rightarrow> Inl (Exn AttributeError
               (PStr (repr_str (ret_type_name r) @ '' object has no attribute '' @ repr_str name))))"


text \<open>
  A class used as a callable.  \<open>Model n\<close> is the model class named \<open>n\<close> of \<open>models/\<close>;
  \<open>typing.Dict\<close> is passed as a model class by some team and user methods and cannot
  be instantiated; a class attribute left \<open>None\<close> is not callable.
\<close>

datatype pyclass = Model string | TypingDict

section \<open>The backing store and the log of backend traffic\<close>

text \<open>
  A where-clause: a column compared with a bound parameter, or the constant \<open>false\<close>
  that a Python \<open>False\<close> becomes.
\<close>

datatype cond = ColEq string pyval | Never

datatype stmt =
    Select string "cond list"
  | Insert string pydict
  | Update string "cond list" pydict
  | Delete string "cond list"
  | TextSql string pydict

text \<open>A table: its columns, the server defaults of the columns that have one, its rows.\<close>

record table =
  columns :: "string list"
  defaults :: pydict
  rows :: "pydict list"

datatype payload = ModelData pyobj | Plain pyval

record http_request =
  req_method :: string
  req_url :: string
  req_json :: "payload option"
  req_params :: "pydict option"

record response =
  status_code :: int
  json_body :: "string + pyval"
  resp_text :: string
  reason :: string

text \<open>
  Every request handed to the HTTP session and every statement handed to the database
  engine is logged, in order: the log tells which backend a call used.
\<close>

datatype event = HttpCall http_request | SqlCall stmt

record world =
  log :: "event list"
  tables :: "(string \<times> table) list"
  uuid_count :: nat

type_synonym 'a io = "world \<Rightarrow> (exn + 'a) \<times> world"

text \<open>
  The libraries the SDK delegates to: \<open>uuid.UUID(s)\<close> (\<open>None\<close> for its
  \<open>ValueError\<close>), the stream of \<open>uuid.uuid4()\<close> results, the validating
  constructors of the pydantic model classes, by class name, the value as which the
  database driver presents a bound parameter to the database (\<open>bind\<close>), and the names
  that are attributes of SQLAlchemy's column collection itself, such as \<open>keys\<close> or
  \<open>get\<close> (\<open>collection_attr\<close>).
\<close>

record env =
  uuid_parse :: "string \<Rightarrow> uuid option"
  uuid4 :: "nat \<Rightarrow> uuid"
  pydantic :: "string \<Rightarrow> pydict \<Rightarrow> exn + pyobj"
  bind :: "pyval \<Rightarrow> pyval"
  collection_attr :: "string \<Rightarrow> bool"

definition call_class :: "env \<Rightarrow> pyclass option \<Rightarrow> pydict \<Rightarrow> exn + pyobj" where
  "call_class E cls kwargs =
     (case cls of
        None \<Rightarrow> Inl (Exn TypeError (PStr (repr_str ''NoneType'' @ '' object is not callable'')))
      | Some TypingDict \<Rightarrow>
          Inl (Exn TypeError (PStr ''Type Dict cannot be instantiated; use dict() instead''))
      | Some (Model n) \<Rightarrow> pydantic E n kwargs)"

definition emit :: "event \<Rightarrow> world \<Rightarrow> world" where
  "emit e w = w\<lparr>log := log w @ [e]\<rparr>"

text \<open>Sequencing of calls that may raise, and list comprehensions over them.\<close>

definition return_io :: "'a \<Rightarrow> 'a io" where
  "return_io x w = (Inr x, w)"

definition raise_io :: "exn \<Rightarrow> 'a io" where
  "raise_io e w = (Inl e, w)"

definition bind_io :: "'a io \<Rightarrow> ('a \<Rightarrow> 'b io) \<Rightarrow> 'b io" where
  "bind_io m f w = (case m w of (Inl e, w') \<Rightarrow> (Inl e, w') | (Inr x, w') \<Rightarrow> f x w')"

definition lift_io :: "exn + 'a \<Rightarrow> 'a io" where
  "lift_io r w = (r, w)"

fun map_result :: "('a \<Rightarrow> exn + 'b) \<Rightarrow> 'a list \<Rightarrow> exn + 'b list" where
  "map_result f [] = Inr []"
| "map_result f (x # xs) =
     (case f x of
        Inl e \<Rightarrow> Inl e
      | Inr y \<Rightarrow> (case map_result f xs of Inl e \<Rightarrow> Inl e | Inr ys \<Rightarrow> Inr (y # ys)))"

section \<open>The HTTP backend (\<open>api/connection.py\<close>)\<close>

text \<open>
  \<open>session_request\<close> is the HTTP session of the connection: it answers a request with
  a response or raises (transport errors, a body that cannot be serialised).
\<close>

record api_conn =
  base_url :: string
  api_key :: string
  api_version :: string
  session_request :: "http_request \<Rightarrow> exn + response"

definition lstrip :: "char \<Rightarrow> string \<Rightarrow> string" where
  "lstrip c s = dropWhile (\<lambda>x. x = c) s"

definition rstrip :: "char \<Rightarrow> string \<Rightarrow> string" where
  "rstrip c s = rev (dropWhile (\<lambda>x. x = c) (rev s))"

definition startswith :: "string \<Rightarrow> string \<Rightarrow> bool" where
  "startswith s p = (take (length p) s = p)"

definition APIConnection_init ::
  "string \<Rightarrow> string \<Rightarrow> string \<Rightarrow> (http_request \<Rightarrow> exn + response) \<Rightarrow> api_conn" where
  "APIConnection_init url key version session =
     \<lparr>base_url = rstrip (CHR ''/'') url, api_key = key, api_version = version,
      session_request = session\<rparr>"

definition build_url :: "api_conn \<Rightarrow> string \<Rightarrow> string" where
  "build_url c path =
     (let p = lstrip (CHR ''/'') path;
          p' = (if \<not> startswith p (api_version c @ ''/'') then api_version c @ ''/'' @ p else p)
      in base_url c @ ''/'' @ p')"

text \<open>
  The error detail of a failed response.  \<open>response.json()\<close> either raises its decode
  error (\<open>Inl\<close> of the message) or gives the document; \<open>.get\<close> exists on a dictionary
  only, and the \<open>AttributeError\<close> of any other document is not handled.
\<close>

definition error_detail :: "string + pyval \<Rightarrow> string \<Rightarrow> exn + pyval" where
  "error_detail body txt =
     (case body of
        Inl msg \<Rightarrow> Inr (PStr txt)
      | Inr (PDict error_data) \<Rightarrow>
          Inr (py_or (dict_get error_data ''detail'' PNone) (dict_get error_data ''message'' PNone))
      | Inr v \<Rightarrow> Inl (Exn AttributeError
                  (PStr (repr_str (type_name v) @ '' object has no attribute '' @ repr_str ''get''))))"

text \<open>\<open>cls(**item)\<close>: the unpacked argument must be a mapping.\<close>

definition call_unpacked :: "env \<Rightarrow> pyclass option \<Rightarrow> pyval \<Rightarrow> exn + pyobj" where
  "call_unpacked E cls item =
     (case item of
        PDict kwargs \<Rightarrow> call_class E cls kwargs
      | _ \<Rightarrow> Inl (Exn TypeError
                 (PStr (''argument after ** must be a mapping, not '' @ type_name item))))"

text \<open>\<open>response.raise_for_status()\<close> raises for the client and server error ranges.\<close>

definition raises_for_status :: "int \<Rightarrow> bool" where
  "raises_for_status code = (400 \<le> code \<and> code < 600)"

definition handle_response :: "env \<Rightarrow> 'a response_scheme \<Rightarrow> pyclass option \<Rightarrow> exn + ret" where
  "handle_response E r expected_model_class =
     (if raises_for_status (status_code r) then
        (case error_detail (json_body r) (resp_text r) of
           Inl e \<Rightarrow> Inl e
         | Inr detail \<Rightarrow>
             (if status_code r = 401 \<or> status_code r = 403 then
                Inl (Exn AuthenticationError (py_or detail (PStr ''Authentication failed'')))
              else if status_code r = 404 then
                Inl (Exn NotFoundError (py_or detail (PStr ''Resource not found'')))
              else if status_code r = 422 then
                Inl (Exn ValidationError (py_or detail (PStr ''Validation error'')))
              else if status_code r = 429 then
                Inl (Exn RateLimitError (py_or detail (PStr ''Rate limit exceeded'')))
              else
                Inl (Exn APIError (PStr (''API error: '' @ str_int (status_code r) @ '' - ''
                       @ py_str (py_or detail (PStr (reason r))))))))
      else
        (case json_body r of
           Inl msg \<Rightarrow> Inl (Exn JSONDecodeError (PStr msg))
         | Inr data \<Rightarrow>
             (case (expected_model_class, data) of
                (Some cls, PList items) \<Rightarrow>
                  (case map_result (call_unpacked E (Some cls)) items of
                     Inl e \<Rightarrow> Inl e
                   | Inr objs \<Rightarrow> Inr (Objs objs))
              | (Some cls, PDict item) \<Rightarrow>
                  (case call_class E (Some cls) item of
                     Inl e \<Rightarrow> Inl e
                   | Inr obj \<Rightarrow> Inr (Obj obj))
              | _ \<Rightarrow> Inr (Raw data))))"

text \<open>
  \<open>request\<close> converts the data only when it is an instance of \<open>models.base.BaseModel\<close>;
  the create and update models derive from other bases and are passed on as they are.
\<close>

definition api_model_to_dict :: "pyobj option \<Rightarrow> pydict" where
  "api_model_to_dict model_obj = (case model_obj of None \<Rightarrow> [] | Some obj \<Rightarrow> dict_exclude_unset obj)"

definition request ::
  "env \<Rightarrow> api_conn \<Rightarrow> string \<Rightarrow> string \<Rightarrow> pyclass option \<Rightarrow> payload option \<Rightarrow> pydict option \<Rightarrow> ret io"
  where
  "request E c method path model_class data params w =
     (let url = build_url c path;
          data' = (case data of
                     Some (ModelData obj) \<Rightarrow>
                       (if obj_base obj = BaseModel
                        then Some (Plain (PDict (api_model_to_dict (Some obj))))
                        else data)
                   | _ \<Rightarrow> data);
          req = \<lparr>req_method = method, req_url = url, req_json = data', req_params = params\<rparr>;
          w' = emit (HttpCall req) w
      in (case session_request c req of
            Inl e \<Rightarrow> (Inl e, w')
          | Inr resp \<Rightarrow> (handle_response E resp model_class, w')))"

definition APIConnection_list :: "env \<Rightarrow> api_conn \<Rightarrow> string \<Rightarrow> pyclass option \<Rightarrow> pydict \<Rightarrow> ret io" where
  "APIConnection_list E c resource_path model_class params =
     request E c ''GET'' resource_path model_class None (Some params)"

definition APIConnection_get :: "env \<Rightarrow> api_conn \<Rightarrow> string \<Rightarrow> string \<Rightarrow> pyclass option \<Rightarrow> ret io" where
  "APIConnection_get E c resource_path resource_id model_class =
     request E c ''GET'' (resource_path @ ''/'' @ resource_id) model_class None None"

definition APIConnection_create :: "env \<Rightarrow> api_conn \<Rightarrow> string \<Rightarrow> payload \<Rightarrow> pyclass option \<Rightarrow> ret io" where
  "APIConnection_create E c resource_path data model_class =
     request E c ''POST'' resource_path model_class (Some data) None"

definition APIConnection_update ::
  "env \<Rightarrow> api_conn \<Rightarrow> string \<Rightarrow> string \<Rightarrow> payload \<Rightarrow> pyclass option \<Rightarrow> ret io" where
  "APIConnection_update E c resource_path resource_id data model_class =
     request E c ''PUT'' (resource_path @ ''/'' @ resource_id) model_class (Some data) None"

definition APIConnection_delete :: "env \<Rightarrow> api_conn \<Rightarrow> string \<Rightarrow> string \<Rightarrow> ret io" where
  "APIConnection_delete E c resource_path resource_id =
     bind_io (request E c ''DELETE'' (resource_path @ ''/'' @ resource_id) None None None)
       (\<lambda>_. return_io (Raw (PBool True)))"

text \<open>
  \<open>delete(self, resource_path, resource_id)\<close> has two required parameters, and not every
  call site passes both: the call binds its positional arguments first and raises
  \<open>TypeError\<close>, before the body runs, when the count is wrong.
\<close>

definition APIConnection_delete_call :: "env \<Rightarrow> api_conn \<Rightarrow> string list \<Rightarrow> ret io" where
  "APIConnection_delete_call E c args =
     (case args of
        [resource_path, resource_id] \<Rightarrow> APIConnection_delete E c resource_path resource_id
      | [resource_path] \<Rightarrow>
          raise_io (Exn TypeError (PStr (''APIConnection.delete() missing 1 required positional argument: ''
            @ repr_str ''resource_id'')))
      | [] \<Rightarrow>
          raise_io (Exn TypeError (PStr (''APIConnection.delete() missing 2 required positional arguments: ''
            @ repr_str ''resource_path'' @ '' and '' @ repr_str ''resource_id'')))
      | _ \<Rightarrow>
          raise_io (Exn TypeError (PStr (''APIConnection.delete() takes 3 positional arguments but ''
            @ dec (Suc (length args)) @ '' were given''))))"

section \<open>The database backend (\<open>database/connection.py\<close>)\<close>

subsection \<open>The store\<close>

text \<open>
  SQL execution belongs to the database; the store below is the plain reading of the
  statements the SDK issues.  A parameter reaches the database as the driver binds it.  A
  comparison with \<open>None\<close> is \<open>IS NULL\<close>; any other comparison selects the rows whose
  cell is not \<open>NULL\<close> and equals the bound parameter.  An inserted row has every column
  of the table: the bound value where one is given, the column's default or \<open>NULL\<close>
  where none is.  Constraints of the schema are not part of the store, and neither are a
  driver that refuses a parameter and a statement that SQLAlchemy refuses because it
  writes a name the table lacks: what is proved below about the rows a statement returns
  names the bound value it depends on and takes the written names to be columns.
\<close>

definition bound :: "env \<Rightarrow> pyval \<Rightarrow> pyval" where
  "bound E v = (if v = PNone then PNone else bind E v)"

fun holds :: "env \<Rightarrow> pydict \<Rightarrow> cond \<Rightarrow> bool" where
  "holds E row (ColEq c v) =
     (if v = PNone then dict_get row c PNone = PNone
      else dict_get row c PNone \<noteq> PNone \<and> dict_get row c PNone = bind E v)"
| "holds E row Never = False"

definition row_matches :: "env \<Rightarrow> cond list \<Rightarrow> pydict \<Rightarrow> bool" where
  "row_matches E conds row = list_all (holds E row) conds"

definition run_select :: "env \<Rightarrow> table \<Rightarrow> cond list \<Rightarrow> pydict list" where
  "run_select E t conds = filter (row_matches E conds) (rows t)"

definition assign :: "pydict \<Rightarrow> pydict \<Rightarrow> pydict" where
  "assign vals row = fold (\<lambda>kv r. dict_set r (fst kv) (snd kv)) vals row"

definition insert_row :: "env \<Rightarrow> table \<Rightarrow> pydict \<Rightarrow> pydict" where
  "insert_row E t vals =
     map (\<lambda>c. (c, case map_of vals c of
                    Some v \<Rightarrow> bound E v
                  | None \<Rightarrow> dict_get (defaults t) c PNone)) (columns t)"

definition run_insert :: "env \<Rightarrow> table \<Rightarrow> pydict \<Rightarrow> table" where
  "run_insert E t vals = t\<lparr>rows := rows t @ [insert_row E t vals]\<rparr>"

definition run_update :: "env \<Rightarrow> table \<Rightarrow> cond list \<Rightarrow> pydict \<Rightarrow> table" where
  "run_update E t conds vals =
     t\<lparr>rows := map (\<lambda>row. if row_matches E conds row
                           then assign (map (\<lambda>kv. (fst kv, bound E (snd kv))) vals) row
                           else row) (rows t)\<rparr>"

definition run_delete :: "env \<Rightarrow> table \<Rightarrow> cond list \<Rightarrow> table" where
  "run_delete E t conds = t\<lparr>rows := filter (\<lambda>row. \<not> row_matches E conds row) (rows t)\<rparr>"

definition rowcount :: "env \<Rightarrow> table \<Rightarrow> cond list \<Rightarrow> nat" where
  "rowcount E t conds = length (run_select E t conds)"

definition fetchone :: "pydict list \<Rightarrow> pydict option" where
  "fetchone rs = (case rs of [] \<Rightarrow> None | r # _ \<Rightarrow> Some r)"

definition store_table :: "string \<Rightarrow> table \<Rightarrow> world \<Rightarrow> world" where
  "store_table name t w =
     w\<lparr>tables := map (\<lambda>nt. if fst nt = name then (name, t) else nt) (tables w)\<rparr>"

subsection \<open>The connection\<close>

definition get_table :: "world \<Rightarrow> string \<Rightarrow> exn + table" where
  "get_table w resource_name =
     (case map_of (tables w) resource_name of
        Some t \<Rightarrow> Inr t
      | None \<Rightarrow> Inl (Exn ValueError
                  (PStr (''Table '' @ resource_name @ '' not found in database schema''))))"

text \<open>\<open>table.c.name\<close>: the column collection raises \<open>AttributeError\<close> for an unknown column.\<close>

definition column :: "table \<Rightarrow> string \<Rightarrow> exn + string" where
  "column t name =
     (if name \<in> set (columns t) then Inr name else Inl (Exn AttributeError (PStr name)))"

text \<open>\<open>dict(row)\<close> and \<open>model_class(**row)\<close> on a fetched row, which may be \<open>None\<close>.\<close>

definition row_dict :: "pydict option \<Rightarrow> exn + pydict" where
  "row_dict row =
     (case row of
        None \<Rightarrow> Inl (Exn TypeError (PStr (repr_str ''NoneType'' @ '' object is not iterable'')))
      | Some r \<Rightarrow> Inr r)"

definition row_to_model :: "env \<Rightarrow> pydict \<Rightarrow> pyclass option \<Rightarrow> exn + pyobj" where
  "row_to_model E row model_class = call_class E model_class row"

text \<open>\<open>_model_to_dict\<close> of the database connection turns UUID objects into text.\<close>

definition db_model_to_dict :: "pyobj \<Rightarrow> pydict" where
  "db_model_to_dict model_obj =
     map (\<lambda>kv. (fst kv, case snd kv of PUuid u \<Rightarrow> PStr (py_str (PUuid u)) | v \<Rightarrow> v))
       (dict_exclude_unset model_obj)"

text \<open>
  The lookup condition that \<open>get\<close>, \<open>update\<close> and \<open>delete\<close> each build: the identifier
  is tried first, the key only after \<open>uuid.UUID\<close> has raised \<open>ValueError\<close>.
\<close>

definition lookup_condition :: "env \<Rightarrow> table \<Rightarrow> string \<Rightarrow> exn + cond" where
  "lookup_condition E t id_or_key =
     (case uuid_parse E id_or_key of
        Some uuid_obj \<Rightarrow>
          (case column t ''id'' of Inl e \<Rightarrow> Inl e | Inr c \<Rightarrow> Inr (ColEq c (PUuid uuid_obj)))
      | None \<Rightarrow>
          (case column t ''key'' of Inl e \<Rightarrow> Inl e | Inr c \<Rightarrow> Inr (ColEq c (PStr id_or_key))))"

text \<open>
  \<open>list\<close> applies a filter when \<open>hasattr(table.c, key)\<close> holds, which is so for a
  column name and for an attribute of the collection itself; for the latter
  \<open>getattr(table.c, key) == value\<close> compares a bound method with the value and is the
  Python \<open>False\<close>.
\<close>

definition filter_cond :: "env \<Rightarrow> string \<Rightarrow> pyval \<Rightarrow> cond" where
  "filter_cond E key v = (if collection_attr E key then Never else ColEq key v)"

definition DatabaseConnection_list :: "env \<Rightarrow> string \<Rightarrow> pyclass option \<Rightarrow> pydict \<Rightarrow> ret io" where
  "DatabaseConnection_list E resource_name model_class filters w =
     (case get_table w resource_name of
        Inl e \<Rightarrow> (Inl e, w)
      | Inr t \<Rightarrow>
          (let conds = map (\<lambda>kv. filter_cond E (fst kv) (snd kv))
                         (filter (\<lambda>kv. fst kv \<in> set (columns t) \<or> collection_attr E (fst kv))
                            filters);
               w' = emit (SqlCall (Select resource_name conds)) w
           in (case map_result (\<lambda>row. row_to_model E row model_class) (run_select E t conds) of
                 Inl e \<Rightarrow> (Inl e, w')
               | Inr objs \<Rightarrow> (Inr (Objs objs), w'))))"

definition DatabaseConnection_get :: "env \<Rightarrow> string \<Rightarrow> string \<Rightarrow> pyclass option \<Rightarrow> ret io" where
  "DatabaseConnection_get E resource_name id_or_key model_class w =
     (case get_table w resource_name of
        Inl e \<Rightarrow> (Inl e, w)
      | Inr t \<Rightarrow>
          (case lookup_condition E t id_or_key of
             Inl e \<Rightarrow> (Inl e, w)
           | Inr cond \<Rightarrow>
               (let w' = emit (SqlCall (Select resource_name [cond])) w
                in (case fetchone (run_select E t [cond]) of
                      None \<Rightarrow> (Inr (Raw PNone), w')
                    | Some row \<Rightarrow>
                        (case row_to_model E row model_class of
                           Inl e \<Rightarrow> (Inl e, w')
                         | Inr obj \<Rightarrow> (Inr (Obj obj), w'))))))"

text \<open>
  \<open>create\<close>: the insert and the read-back run in one transaction; an exception inside it
  rolls the insert back.  The read-back is \<open>select([table])\<close>: the row it fetches has
  every column of the table.
\<close>

definition DatabaseConnection_create :: "env \<Rightarrow> string \<Rightarrow> pyobj \<Rightarrow> pyclass option \<Rightarrow> ret io" where
  "DatabaseConnection_create E resource_name data model_class w =
     (case get_table w resource_name of
        Inl e \<Rightarrow> (Inl e, w)
      | Inr t \<Rightarrow>
          (let values0 = db_model_to_dict data;
               fresh = (''id'' \<notin> fst ` set values0 \<or> \<not> truthy (dict_get values0 ''id'' PNone));
               vals = (if fresh
                       then dict_set values0 ''id'' (PStr (py_str (PUuid (uuid4 E (uuid_count w)))))
                       else values0);
               w1 = (if fresh then w\<lparr>uuid_count := Suc (uuid_count w)\<rparr> else w);
               w2 = emit (SqlCall (Insert resource_name vals)) w1;
               t' = run_insert E t vals
           in (case column t ''id'' of
                 Inl e \<Rightarrow> (Inl e, w2)
               | Inr c \<Rightarrow>
                   (let q = [ColEq c (dict_get vals ''id'' PNone)];
                        w3 = store_table resource_name t' (emit (SqlCall (Select resource_name q)) w2)
                    in (case row_dict (fetchone (run_select E t' q)) of
                          Inl e \<Rightarrow> (Inl e, w3)
                        | Inr row \<Rightarrow>
                            (case row_to_model E row model_class of
                               Inl e \<Rightarrow> (Inl e, w3)
                             | Inr obj \<Rightarrow> (Inr (Obj obj), w3)))))))"

definition DatabaseConnection_update ::
  "env \<Rightarrow> string \<Rightarrow> string \<Rightarrow> pyobj \<Rightarrow> pyclass option \<Rightarrow> ret io" where
  "DatabaseConnection_update E resource_name id_or_key data model_class w =
     (case get_table w resource_name of
        Inl e \<Rightarrow> (Inl e, w)
      | Inr t \<Rightarrow>
          (let vals = db_model_to_dict data
           in (case lookup_condition E t id_or_key of
                 Inl e \<Rightarrow> (Inl e, w)
               | Inr cond \<Rightarrow>
                   (let t' = run_update E t [cond] vals;
                        w' = store_table resource_name t'
                               (emit (SqlCall (Select resource_name [cond]))
                                 (emit (SqlCall (Update resource_name [cond] vals)) w))
                    in (case row_dict (fetchone (run_select E t' [cond])) of
                          Inl e \<Rightarrow> (Inl e, w')
                        | Inr row \<Rightarrow>
                            (case row_to_model E row model_class of
                               Inl e \<Rightarrow> (Inl e, w')
                             | Inr obj \<Rightarrow> (Inr (Obj obj), w')))))))"

definition DatabaseConnection_delete :: "env \<Rightarrow> string \<Rightarrow> string \<Rightarrow> ret io" where
  "DatabaseConnection_delete E resource_name id_or_key w =
     (case get_table w resource_name of
        Inl e \<Rightarrow> (Inl e, w)
      | Inr t \<Rightarrow>
          (case lookup_condition E t id_or_key of
             Inl e \<Rightarrow> (Inl e, w)
           | Inr cond \<Rightarrow>
               (let w' = store_table resource_name (run_delete E t [cond])
                           (emit (SqlCall (Delete resource_name [cond])) w)
                in (Inr (Raw (PBool (rowcount E t [cond] > 0))), w'))))"

text \<open>
  The two join queries are textual SQL against \<open>team_members\<close>:
  members of a team, and teams of a user.
\<close>

definition join_on ::
  "env \<Rightarrow> pydict list \<Rightarrow> pydict list \<Rightarrow> string \<Rightarrow> string \<Rightarrow> string \<Rightarrow> pyval \<Rightarrow> pydict list"
  where
  "join_on E lefts members left_col member_col filter_col v =
     concat (map (\<lambda>l. map (\<lambda>m. l)
       (filter (\<lambda>m. dict_get l left_col PNone \<noteq> PNone
                  \<and> dict_get l left_col PNone = dict_get m member_col PNone
                  \<and> holds E m (ColEq filter_col v)) members)) lefts)"

definition text_join ::
  "env \<Rightarrow> string \<Rightarrow> string \<Rightarrow> string \<Rightarrow> string \<Rightarrow> string \<Rightarrow> string \<Rightarrow> string \<Rightarrow> ret io" where
  "text_join E sql left_table member_col filter_col param v cls w =
     (let w' = emit (SqlCall (TextSql sql [(param, PStr v)])) w
      in (case (map_of (tables w) left_table, map_of (tables w) ''team_members'') of
            (Some l, Some m) \<Rightarrow>
              (case map_result (\<lambda>row. call_class E (Some (Model cls)) row)
                      (join_on E (rows l) (rows m) ''id'' member_col filter_col (PStr v)) of
                 Inl e \<Rightarrow> (Inl e, w')
               | Inr objs \<Rightarrow> (Inr (Objs objs), w'))
          | _ \<Rightarrow> (Inl (Exn (OtherException ''ProgrammingError'') (PStr ''no such table'')), w')))"

definition DatabaseConnection_get_team_members :: "env \<Rightarrow> string \<Rightarrow> ret io" where
  "DatabaseConnection_get_team_members E team_id =
     text_join E
       ''SELECT u.* FROM users u JOIN team_members tm ON u.id = tm.user_id WHERE tm.team_id = :team_id''
       ''users'' ''user_id'' ''team_id'' ''team_id'' team_id ''User''"

definition DatabaseConnection_get_user_teams :: "env \<Rightarrow> string \<Rightarrow> ret io" where
  "DatabaseConnection_get_user_teams E user_id =
     text_join E
       ''SELECT t.* FROM teams t JOIN team_members tm ON t.id = tm.team_id WHERE tm.user_id = :user_id''
       ''teams'' ''team_id'' ''user_id'' ''user_id'' user_id ''Team''"

section \<open>Resource dispatchers (\<open>core/resources/\<close>)\<close>

subsection \<open>\<open>ResourceBase\<close>\<close>

datatype db_conn = DatabaseConnection string

record resource_class =
  resource_name :: string
  model_class :: "pyclass option"
  create_model_class :: "pyclass option"
  update_model_class :: "pyclass option"

record resource = resource_class +
  db :: "db_conn option"
  api :: "api_conn option"
  mixed_mode :: bool

definition ResourceBase_init ::
  "resource_class \<Rightarrow> db_conn option \<Rightarrow> api_conn option \<Rightarrow> exn + resource" where
  "ResourceBase_init cls d a =
     (if Option.is_none d \<and> Option.is_none a
      then Inl (Exn ValueError (PStr ''At least one of db or api must be provided''))
      else Inr \<lparr>resource_name = resource_name cls, model_class = model_class cls,
                create_model_class = create_model_class cls,
                update_model_class = update_model_class cls,
                db = d, api = a, mixed_mode = (\<not> Option.is_none d \<and> \<not> Option.is_none a)\<rparr>)"

definition get_id_from_arg :: "pyval \<Rightarrow> string" where
  "get_id_from_arg id_or_key = py_str id_or_key"

text \<open>\<open>self.api.m(...)\<close> and \<open>self.db.m(...)\<close>: the attribute is \<open>None\<close> when the connection is absent.\<close>

definition none_has_no :: "string \<Rightarrow> exn" where
  "none_has_no m =
     Exn AttributeError (PStr (repr_str ''NoneType'' @ '' object has no attribute '' @ repr_str m))"

definition self_api :: "resource \<Rightarrow> string \<Rightarrow> (api_conn \<Rightarrow> 'a io) \<Rightarrow> 'a io" where
  "self_api self m f = (case api self of None \<Rightarrow> raise_io (none_has_no m) | Some c \<Rightarrow> f c)"

definition self_db :: "resource \<Rightarrow> string \<Rightarrow> (db_conn \<Rightarrow> 'a io) \<Rightarrow> 'a io" where
  "self_db self m f = (case db self of None \<Rightarrow> raise_io (none_has_no m) | Some d \<Rightarrow> f d)"

definition force_api :: "pydict \<Rightarrow> bool" where
  "force_api kwargs = truthy (dict_get kwargs ''force_api'' (PBool False))"

subsection \<open>\<open>ResourceMixin\<close>\<close>

definition ResourceMixin_list :: "env \<Rightarrow> resource \<Rightarrow> pydict \<Rightarrow> ret io" where
  "ResourceMixin_list E self kwargs =
     (if \<not> Option.is_none (db self) \<and> \<not> (mixed_mode self \<and> force_api kwargs)
      then self_db self ''list''
             (\<lambda>d. DatabaseConnection_list E (resource_name self) (model_class self) kwargs)
      else self_api self ''list''
             (\<lambda>c. APIConnection_list E c (resource_name self) (model_class self) kwargs))"

definition ResourceMixin_get :: "env \<Rightarrow> resource \<Rightarrow> pyval \<Rightarrow> pydict \<Rightarrow> ret io" where
  "ResourceMixin_get E self id_or_key kwargs =
     (let item_id = get_id_from_arg id_or_key
      in if \<not> Option.is_none (db self) \<and> \<not> (mixed_mode self \<and> force_api kwargs)
         then self_db self ''get''
                (\<lambda>d. DatabaseConnection_get E (resource_name self) item_id (model_class self))
         else self_api self ''get''
                (\<lambda>c. APIConnection_get E c (resource_name self) item_id (model_class self)))"

definition ResourceMixin_create :: "env \<Rightarrow> resource \<Rightarrow> pydict \<Rightarrow> ret io" where
  "ResourceMixin_create E self kwargs =
     bind_io (lift_io (call_class E (create_model_class self) kwargs))
       (\<lambda>data.
          if mixed_mode self \<or> Option.is_none (db self)
          then self_api self ''create''
                 (\<lambda>c. APIConnection_create E c (resource_name self) (ModelData data) (model_class self))
          else self_db self ''create''
                 (\<lambda>d. DatabaseConnection_create E (resource_name self) data (model_class self)))"

definition ResourceMixin_update :: "env \<Rightarrow> resource \<Rightarrow> pyval \<Rightarrow> pydict \<Rightarrow> ret io" where
  "ResourceMixin_update E self id_or_key kwargs =
     (let item_id = get_id_from_arg id_or_key
      in bind_io (lift_io (call_class E (update_model_class self) kwargs))
           (\<lambda>data.
              if mixed_mode self \<or> Option.is_none (db self)
              then self_api self ''update''
                     (\<lambda>c. APIConnection_update E c (resource_name self) item_id (ModelData data)
                            (model_class self))
              else self_db self ''update''
                     (\<lambda>d. DatabaseConnection_update E (resource_name self) item_id data
                            (model_class self))))"

definition ResourceMixin_delete :: "env \<Rightarrow> resource \<Rightarrow> pyval \<Rightarrow> pydict \<Rightarrow> ret io" where
  "ResourceMixin_delete E self id_or_key kwargs =
     (let item_id = get_id_from_arg id_or_key
      in if mixed_mode self \<or> Option.is_none (db self)
         then self_api self ''delete''
                (\<lambda>c. APIConnection_delete_call E c [resource_name self, item_id])
         else self_db self ''delete''
                (\<lambda>d. DatabaseConnection_delete E (resource_name self) item_id))"

subsection \<open>\<open>api_write_only\<close> (\<open>core/utils/decorators.py\<close>)\<close>

text \<open>
  The handlers of the wrapper, in their order: the three subclasses first, then
  \<open>APIError\<close> (which also takes its remaining subclasses), then \<open>Exception\<close>.
\<close>

definition retag :: "string \<Rightarrow> exn \<Rightarrow> exn" where
  "retag name e =
     (if exn_class e = AuthenticationError then
        Exn AuthenticationError
          (PStr (''Failed to authenticate when performing '' @ name @ '': '' @ str_exn e))
      else if exn_class e = ValidationError then
        Exn ValidationError (PStr (''Invalid data for '' @ name @ '': '' @ str_exn e))
      else if exn_class e = NotFoundError then
        Exn NotFoundError (PStr (''Resource not found in '' @ name @ '': '' @ str_exn e))
      else if is_APIError (exn_class e) then
        Exn APIError (PStr (''API error occurred during '' @ name @ '': '' @ str_exn e))
      else
        Exn APIError (PStr (''Unexpected error during '' @ name @ '': '' @ str_exn e)))"

definition api_write_only :: "string \<Rightarrow> (resource \<Rightarrow> 'a io) \<Rightarrow> resource \<Rightarrow> 'a io" where
  "api_write_only name method self w =
     (if Option.is_none (api self) then
        (Inl (Exn ValueError (PStr (''API connection is required for '' @ name
               @ ''. Please initialize the client with an API connection.''))), w)
      else
        (case method self w of
           (Inr v, w') \<Rightarrow> (Inr v, w')
         | (Inl e, w') \<Rightarrow> (Inl (retag name e), w')))"

subsection \<open>\<open>WriteThruAPIResourceMixin\<close>, \<open>Users\<close> and \<open>Teams\<close>\<close>

text \<open>
  \<open>Users\<close> and \<open>Teams\<close> override \<open>create\<close>, \<open>update\<close> and \<open>delete\<close> of the mixin with
  the same bodies; neither the mixin nor the two classes define \<open>list\<close> or \<open>get\<close>.
\<close>

definition WriteThru_create :: "env \<Rightarrow> pydict \<Rightarrow> resource \<Rightarrow> ret io" where
  "WriteThru_create E kwargs = api_write_only ''create'' (\<lambda>self.
     bind_io (lift_io (call_class E (create_model_class self) kwargs))
       (\<lambda>data. self_api self ''create''
          (\<lambda>c. APIConnection_create E c (resource_name self) (ModelData data) (model_class self))))"

definition WriteThru_update :: "env \<Rightarrow> pyval \<Rightarrow> pydict \<Rightarrow> resource \<Rightarrow> ret io" where
  "WriteThru_update E id_or_key kwargs = api_write_only ''update'' (\<lambda>self.
     let item_id = get_id_from_arg id_or_key
     in bind_io (lift_io (call_class E (update_model_class self) kwargs))
          (\<lambda>data. self_api self ''update''
             (\<lambda>c. APIConnection_update E c (resource_name self) item_id (ModelData data)
                    (model_class self))))"

definition WriteThru_delete :: "env \<Rightarrow> pyval \<Rightarrow> resource \<Rightarrow> ret io" where
  "WriteThru_delete E id_or_key = api_write_only ''delete'' (\<lambda>self.
     let item_id = get_id_from_arg id_or_key
     in self_api self ''delete'' (\<lambda>c. APIConnection_delete_call E c [resource_name self, item_id]))"

definition Users_class :: resource_class where
  "Users_class = \<lparr>resource_name = ''users'', model_class = Some (Model ''User''),
     create_model_class = Some (Model ''UserCreate''),
     update_model_class = Some (Model ''UserUpdate'')\<rparr>"

definition Teams_class :: resource_class where
  "Teams_class = \<lparr>resource_name = ''teams'', model_class = Some (Model ''Team''),
     create_model_class = Some (Model ''TeamCreate''),
     update_model_class = Some (Model ''TeamUpdate'')\<rparr>"

text \<open>The handlers of \<open>get_teams\<close> and \<open>get_members\<close>.\<close>

definition read_handler :: "string \<Rightarrow> string \<Rightarrow> string \<Rightarrow> exn \<Rightarrow> exn" where
  "read_handler kind what ident e =
     (if exn_class e = NotFoundError
      then Exn NotFoundError (PStr (kind @ '' with ID '' @ ident @ '' not found''))
      else Exn APIError
             (PStr (''Error retrieving '' @ what @ '' '' @ ident @ '': '' @ str_exn e)))"

definition try_read :: "(exn \<Rightarrow> exn) \<Rightarrow> 'a io \<Rightarrow> 'a io" where
  "try_read h m w = (case m w of (Inr v, w') \<Rightarrow> (Inr v, w') | (Inl e, w') \<Rightarrow> (Inl (h e), w'))"

definition Users_get_teams :: "env \<Rightarrow> resource \<Rightarrow> pyval \<Rightarrow> ret io" where
  "Users_get_teams E self user_id0 =
     (let user_id = get_id_from_arg user_id0
      in try_read (read_handler ''User'' ''teams for user'' user_id)
           (if \<not> Option.is_none (db self) \<and> \<not> mixed_mode self
            then self_db self ''get_user_teams'' (\<lambda>d. DatabaseConnection_get_user_teams E user_id)
            else self_api self ''list''
                   (\<lambda>c. APIConnection_list E c (resource_name self @ ''/'' @ user_id @ ''/teams'')
                          (Some (Model ''Team'')) [])))"

definition Users_invite :: "env \<Rightarrow> string \<Rightarrow> pyval \<Rightarrow> resource \<Rightarrow> ret io" where
  "Users_invite E email full_name = api_write_only ''invite'' (\<lambda>self.
     let data = PDict [(''email'', PStr email), (''full_name'', full_name)]
     in self_api self ''create''
          (\<lambda>c. APIConnection_create E c (resource_name self @ ''/invite'') (Plain data)
                 (Some (Model ''User''))))"

definition Users_activate :: "env \<Rightarrow> pyval \<Rightarrow> resource \<Rightarrow> ret io" where
  "Users_activate E id_or_key = api_write_only ''activate'' (\<lambda>self.
     let item_id = get_id_from_arg id_or_key
     in self_api self ''create''
          (\<lambda>c. APIConnection_create E c (resource_name self @ ''/'' @ item_id @ ''/activate'')
                 (Plain (PDict [])) (Some (Model ''User''))))"

definition Users_deactivate :: "env \<Rightarrow> pyval \<Rightarrow> resource \<Rightarrow> ret io" where
  "Users_deactivate E id_or_key = api_write_only ''deactivate'' (\<lambda>self.
     let item_id = get_id_from_arg id_or_key
     in self_api self ''create''
          (\<lambda>c. APIConnection_create E c (resource_name self @ ''/'' @ item_id @ ''/deactivate'')
                 (Plain (PDict [])) (Some (Model ''User''))))"

definition Users_change_password :: "env \<Rightarrow> pyval \<Rightarrow> string \<Rightarrow> string \<Rightarrow> resource \<Rightarrow> ret io" where
  "Users_change_password E id_or_key current_password new_password =
     api_write_only ''change_password'' (\<lambda>self.
       let item_id = get_id_from_arg id_or_key;
           data = PDict [(''current_password'', PStr current_password),
                         (''new_password'', PStr new_password)]
       in bind_io (self_api self ''create''
                    (\<lambda>c. APIConnection_create E c
                           (resource_name self @ ''/'' @ item_id @ ''/change-password'')
                           (Plain data) (Some TypingDict)))
            (\<lambda>_. return_io (Raw (PBool True))))"

definition Teams_get_members :: "env \<Rightarrow> resource \<Rightarrow> pyval \<Rightarrow> ret io" where
  "Teams_get_members E self team_id0 =
     (let team_id = get_id_from_arg team_id0
      in try_read (read_handler ''Team'' ''members for team'' team_id)
           (if \<not> Option.is_none (db self) \<and> \<not> mixed_mode self
            then self_db self ''get_team_members'' (\<lambda>d. DatabaseConnection_get_team_members E team_id)
            else self_api self ''list''
                   (\<lambda>c. APIConnection_list E c (resource_name self @ ''/'' @ team_id @ ''/members'')
                          (Some (Model ''User'')) [])))"

definition Teams_add_member :: "env \<Rightarrow> pyval \<Rightarrow> pyval \<Rightarrow> string \<Rightarrow> resource \<Rightarrow> ret io" where
  "Teams_add_member E team_id0 user_id0 role = api_write_only ''add_member'' (\<lambda>self.
     let team_id = get_id_from_arg team_id0;
         user_id = get_id_from_arg user_id0;
         data = PDict [(''user_id'', PStr user_id), (''role'', PStr role)]
     in self_api self ''create''
          (\<lambda>c. APIConnection_create E c (resource_name self @ ''/'' @ team_id @ ''/members'')
                 (Plain data) (Some TypingDict)))"

definition Teams_remove_member :: "env \<Rightarrow> pyval \<Rightarrow> pyval \<Rightarrow> resource \<Rightarrow> ret io" where
  "Teams_remove_member E team_id0 user_id0 = api_write_only ''remove_member'' (\<lambda>self.
     let team_id = get_id_from_arg team_id0;
         user_id = get_id_from_arg user_id0
     in self_api self ''delete''
          (\<lambda>c. APIConnection_delete_call E c
                 [resource_name self @ ''/'' @ team_id @ ''/members/'' @ user_id]))"

definition Teams_update_member_role :: "env \<Rightarrow> pyval \<Rightarrow> pyval \<Rightarrow> string \<Rightarrow> resource \<Rightarrow> ret io" where
  "Teams_update_member_role E team_id0 user_id0 role =
     api_write_only ''update_member_role'' (\<lambda>self.
       let team_id = get_id_from_arg team_id0;
           user_id = get_id_from_arg user_id0;
           data = PDict [(''role'', PStr role)]
       in self_api self ''update''
            (\<lambda>c. APIConnection_update E c
                   (resource_name self @ ''/'' @ team_id @ ''/members/'' @ user_id) ''''
                   (Plain data) (Some TypingDict)))"

subsection \<open>\<open>Projects\<close>, \<open>Prompts\<close> and \<open>Activities\<close>\<close>

text \<open>\<open>Activities\<close> sets \<open>model_class\<close> only: its create and update models stay \<open>None\<close>.\<close>

definition Projects_class :: resource_class where
  "Projects_class = \<lparr>resource_name = ''projects'', model_class = Some (Model ''Project''),
     create_model_class = Some (Model ''ProjectCreate''),
     update_model_class = Some (Model ''ProjectUpdate'')\<rparr>"

definition Prompts_class :: resource_class where
  "Prompts_class = \<lparr>resource_name = ''prompts'', model_class = Some (Model ''Prompt''),
     create_model_class = Some (Model ''PromptCreate''),
     update_model_class = Some (Model ''PromptUpdate'')\<rparr>"

definition Activities_class :: resource_class where
  "Activities_class = \<lparr>resource_name = ''activities'', model_class = Some (Model ''Activity''),
     create_model_class = None, update_model_class = None\<rparr>"

definition Projects_get_prompts :: "env \<Rightarrow> resource \<Rightarrow> pyval \<Rightarrow> ret io" where
  "Projects_get_prompts E self project_id0 =
     (let project_id = get_id_from_arg project_id0
      in if \<not> Option.is_none (db self) \<and> \<not> mixed_mode self
         then self_db self ''list''
                (\<lambda>d. DatabaseConnection_list E ''prompts'' (Some (Model ''Prompt''))
                       [(''project_id'', PStr project_id)])
         else self_api self ''list''
                (\<lambda>c. APIConnection_list E c (resource_name self @ ''/'' @ project_id @ ''/prompts'')
                       (Some (Model ''Prompt'')) []))"


definition Prompts_get_versions :: "env \<Rightarrow> resource \<Rightarrow> pyval \<Rightarrow> ret io" where
  "Prompts_get_versions E self id_or_key =
     (let prompt_id = get_id_from_arg id_or_key
      in if \<not> Option.is_none (db self) \<and> \<not> mixed_mode self
         then
           bind_io (self_db self ''get''
                      (\<lambda>d. DatabaseConnection_get E (resource_name self) prompt_id
                             (Some (Model ''Prompt''))))
             (\<lambda>prompt.
                bind_io (lift_io (getattr prompt ''parent_id''))
                  (\<lambda>parent_id.
                     bind_io (if truthy parent_id then return_io parent_id
                              else lift_io (getattr prompt ''id''))
                       (\<lambda>root_id.
                          self_db self ''list''
                            (\<lambda>d. DatabaseConnection_list E (resource_name self)
                                   (Some (Model ''Prompt'')) [(''parent_id'', root_id)]))))
         else self_api self ''list''
                (\<lambda>c. APIConnection_list E c (resource_name self @ ''/'' @ prompt_id @ ''/versions'')
                       (Some (Model ''Prompt'')) []))"

definition Activities_list_for_user :: "env \<Rightarrow> resource \<Rightarrow> pyval \<Rightarrow> pydict \<Rightarrow> ret io" where
  "Activities_list_for_user E self user_id0 kwargs =
     (let user_id = get_id_from_arg user_id0
      in if \<not> Option.is_none (db self) \<and> \<not> mixed_mode self
         then self_db self ''list''
                (\<lambda>d. DatabaseConnection_list E (resource_name self) (Some (Model ''Activity''))
                       ((''user_id'', PStr user_id) # kwargs))
         else self_api self ''list''
                (\<lambda>c. APIConnection_list E c (resource_name self @ ''?user_id='' @ user_id)
                       (Some (Model ''Activity'')) kwargs))"

subsection \<open>Which backend a call used\<close>

fun is_http :: "event \<Rightarrow> bool" where
  "is_http (HttpCall r) = True"
| "is_http (SqlCall s) = False"

fun is_sql :: "event \<Rightarrow> bool" where
  "is_sql (HttpCall r) = False"
| "is_sql (SqlCall s) = True"

text \<open>The traffic a call adds to the log of the world it starts from.\<close>

definition traffic :: "'a io \<Rightarrow> world \<Rightarrow> event list" where
  "traffic m w = drop (length (log w)) (log (snd (m w)))"

definition uses_api_only :: "'a io \<Rightarrow> world \<Rightarrow> bool" where
  "uses_api_only m w = (traffic m w \<noteq> [] \<and> list_all is_http (traffic m w))"

definition uses_db_only :: "'a io \<Rightarrow> world \<Rightarrow> bool" where
  "uses_db_only m w = (traffic m w \<noteq> [] \<and> list_all is_sql (traffic m w))"

section \<open>A reference environment\<close>

text \<open>
  The theorems below hold for every environment.  To run the model on concrete inputs,
  this section gives one: the field declarations of \<open>models/\<close>, a validator that accepts
  a value of exactly the declared type (and the text of a UUID for a UUID field), a parser
  for UUID text made of hexadecimal digits and hyphens, a counter for \<open>uuid4\<close>, and a
  database driver that binds a UUID object as its text.
\<close>

datatype ftype = TStr | TBool | TInt | TUuid | TDatetime | TStatus | TDict

datatype fdefault = Required | Default pyval

record field_decl =
  f_name :: string
  f_type :: ftype
  f_optional :: bool
  f_default :: fdefault

definition required :: "string \<Rightarrow> ftype \<Rightarrow> field_decl" where
  "required n t = \<lparr>f_name = n, f_type = t, f_optional = False, f_default = Required\<rparr>"

definition optional :: "string \<Rightarrow> ftype \<Rightarrow> field_decl" where
  "optional n t = \<lparr>f_name = n, f_type = t, f_optional = True, f_default = Default PNone\<rparr>"

definition with_default :: "string \<Rightarrow> ftype \<Rightarrow> pyval \<Rightarrow> field_decl" where
  "with_default n t v = \<lparr>f_name = n, f_type = t, f_optional = False, f_default = Default v\<rparr>"

definition base_fields :: "field_decl list" where
  "base_fields = [optional ''id'' TUuid, optional ''created_at'' TDatetime, optional ''updated_at'' TDatetime,
     optional ''created_by'' TUuid, optional ''updated_by'' TUuid]"

definition declared :: "string \<Rightarrow> (model_base \<times> field_decl list) option" where
  "declared n =
    (if n = ''Project'' then Some (BaseModel, base_fields @
        [required ''name'' TStr, required ''key'' TStr, optional ''description'' TStr, required ''team_id'' TUuid])
     else if n = ''ProjectCreate'' then Some (BaseCreateModel,
        [required ''name'' TStr, required ''key'' TStr, optional ''description'' TStr, required ''team_id'' TUuid])
     else if n = ''ProjectUpdate'' then Some (BaseUpdateModel,
        [optional ''name'' TStr, optional ''description'' TStr, optional ''team_id'' TUuid])
     else if n = ''Prompt'' then Some (BaseModel, base_fields @
        [required ''name'' TStr, required ''key'' TStr, optional ''description'' TStr,
         required ''system_prompt'' TStr, required ''user_prompt'' TStr,
         with_default ''is_active'' TBool (PBool True), with_default ''version'' TInt (PInt 1),
         required ''project_id'' TUuid, optional ''parent_id'' TUuid])
     else if n = ''PromptCreate'' then Some (BaseCreateModel,
        [required ''name'' TStr, required ''key'' TStr, optional ''description'' TStr,
         required ''system_prompt'' TStr, required ''user_prompt'' TStr,
         with_default ''is_active'' TBool (PBool True),
         required ''project_id'' TUuid, optional ''parent_id'' TUuid])
     else if n = ''PromptUpdate'' then Some (BaseUpdateModel,
        [optional ''name'' TStr, optional ''description'' TStr, optional ''system_prompt'' TStr,
         optional ''user_prompt'' TStr, optional ''is_active'' TBool])
     else if n = ''Team'' then Some (BaseModel, base_fields @
        [required ''name'' TStr, optional ''description'' TStr])
     else if n = ''TeamCreate'' then Some (BaseCreateModel,
        [required ''name'' TStr, optional ''description'' TStr])
     else if n = ''TeamUpdate'' then Some (BaseUpdateModel,
        [optional ''name'' TStr, optional ''description'' TStr])
     else if n = ''User'' then Some (BaseModel, base_fields @
        [optional ''username'' TStr, required ''email'' TStr, optional ''full_name'' TStr,
         with_default ''is_active'' TBool (PBool True), with_default ''is_admin'' TBool (PBool False),
         with_default ''status'' TStatus (PStr ''active''),
         optional ''invitation_token'' TStr, optional ''invitation_expiry'' TStr])
     else if n = ''UserCreate'' then Some (BaseCreateModel,
        [optional ''username'' TStr, required ''email'' TStr, optional ''full_name'' TStr, optional ''password'' TStr,
         with_default ''is_active'' TBool (PBool True), with_default ''is_admin'' TBool (PBool False)])
     else if n = ''UserUpdate'' then Some (BaseUpdateModel,
        [optional ''username'' TStr, optional ''email'' TStr, optional ''full_name'' TStr,
         optional ''is_active'' TBool, optional ''is_admin'' TBool, optional ''status'' TStatus])
     else if n = ''Activity'' then Some (BaseModel, base_fields @
        [required ''user_id'' TUuid, required ''activity_type'' TStr, required ''timestamp'' TDatetime,
         optional ''details'' TDict])
     else None)"

definition is_hex :: "char \<Rightarrow> bool" where
  "is_hex c = (c \<in> set ''0123456789abcdefABCDEF'')"

definition lower :: "char \<Rightarrow> char" where
  "lower c = (if c \<in> set ''ABCDEF'' then char_of (of_char c + (32::nat)) else c)"

definition hyphenate :: "string \<Rightarrow> string" where
  "hyphenate h = take 8 h @ ''-'' @ take 4 (drop 8 h) @ ''-'' @ take 4 (drop 12 h) @ ''-''
     @ take 4 (drop 16 h) @ ''-'' @ drop 20 h"

definition hex_uuid :: "string \<Rightarrow> uuid option" where
  "hex_uuid s =
     (let h = filter (\<lambda>c. c \<noteq> CHR ''-'') s
      in if length h = 32 \<and> list_all is_hex h then Some (UUID (hyphenate (map lower h))) else None)"

definition counter_uuid :: "nat \<Rightarrow> uuid" where
  "counter_uuid n =
     UUID (''00000000-0000-4000-8000-'' @ replicate (12 - length (dec n)) (CHR ''0'') @ dec n)"

definition invalid :: "string \<Rightarrow> exn" where
  "invalid n = Exn (OtherException ''pydantic.ValidationError'') (PStr n)"

definition check_value :: "ftype \<Rightarrow> pyval \<Rightarrow> pyval option" where
  "check_value t v =
     (case (t, v) of
        (TStr, PStr s) \<Rightarrow> Some v
      | (TBool, PBool b) \<Rightarrow> Some v
      | (TInt, PInt i) \<Rightarrow> Some v
      | (TUuid, PUuid u) \<Rightarrow> Some v
      | (TUuid, PStr s) \<Rightarrow> map_option PUuid (hex_uuid s)
      | (TDatetime, PStr s) \<Rightarrow> Some v
      | (TStatus, PStr s) \<Rightarrow> (if s \<in> set [''active'', ''invited'', ''disabled''] then Some v else None)
      | (TDict, PDict d) \<Rightarrow> Some v
      | _ \<Rightarrow> None)"

definition check_field :: "pydict \<Rightarrow> field_decl \<Rightarrow> exn + (string \<times> pyval)" where
  "check_field kwargs f =
     (case map_of kwargs (f_name f) of
        None \<Rightarrow>
          (case f_default f of
             Required \<Rightarrow> Inl (invalid (f_name f))
           | Default v \<Rightarrow> Inr (f_name f, v))
      | Some PNone \<Rightarrow> (if f_optional f then Inr (f_name f, PNone) else Inl (invalid (f_name f)))
      | Some v \<Rightarrow>
          (case check_value (f_type f) v of
             None \<Rightarrow> Inl (invalid (f_name f))
           | Some v' \<Rightarrow> Inr (f_name f, v')))"

definition validate :: "string \<Rightarrow> pydict \<Rightarrow> exn + pyobj" where
  "validate n kwargs =
     (case declared n of
        None \<Rightarrow> Inl (Exn (OtherException ''NameError'') (PStr n))
      | Some (base, decls) \<Rightarrow>
          (case map_result (check_field kwargs) decls of
             Inl e \<Rightarrow> Inl e
           | Inr values \<Rightarrow>
               Inr (PObj base values
                      (filter (\<lambda>k. k \<in> fst ` set kwargs) (map f_name decls)))))"

text \<open>
  The driver of the reference environment binds a UUID object as its text and every other
  value as it is; the attributes of the column collection are the four dictionary methods
  \<open>keys\<close>, \<open>values\<close>, \<open>items\<close> and \<open>get\<close>.
\<close>

definition uuid_as_text :: "pyval \<Rightarrow> pyval" where
  "uuid_as_text v = (case v of PUuid (UUID s) \<Rightarrow> PStr s | _ \<Rightarrow> v)"

definition ref_env :: env where
  "ref_env = \<lparr>uuid_parse = hex_uuid, uuid4 = counter_uuid, pydantic = validate,
     bind = uuid_as_text,
     collection_attr = (\<lambda>k. k \<in> set [''keys'', ''values'', ''items'', ''get''])\<rparr>"

subsection \<open>Connections, dispatchers and a store for the examples\<close>

definition ok_session :: "http_request \<Rightarrow> exn + response" where
  "ok_session r =
     Inr \<lparr>status_code = 200, json_body = Inr (PList []), resp_text = ''[]'', reason = ''OK''\<rparr>"

definition not_found_session :: "http_request \<Rightarrow> exn + response" where
  \<open>not_found_session r =
     Inr \<lparr>status_code = 404, json_body = Inr (PDict [(''detail'', PStr ''User not found'')]),
          resp_text = ''{"detail": "User not found"}'', reason = ''Not Found''\<rparr>\<close>

definition demo_api :: "(http_request \<Rightarrow> exn + response) \<Rightarrow> api_conn" where
  "demo_api session = APIConnection_init ''https://api.example.test/'' ''secret'' ''v1'' session"

definition demo_db :: db_conn where
  "demo_db = DatabaseConnection ''postgresql://localhost/promptlane''"

definition dispatcher :: "resource_class \<Rightarrow> db_conn option \<Rightarrow> api_conn option \<Rightarrow> resource" where
  "dispatcher cls d a = projr (ResourceBase_init cls d a)"

definition root_id :: string where
  "root_id = ''11111111-1111-1111-1111-111111111111''"

definition child_id :: string where
  "child_id = ''22222222-2222-2222-2222-222222222222''"

definition project_id :: string where
  "project_id = ''33333333-3333-3333-3333-333333333333''"

definition prompt_row :: "string \<Rightarrow> string \<Rightarrow> int \<Rightarrow> pyval \<Rightarrow> pydict" where
  "prompt_row ident k ver parent =
     [(''id'', PStr ident), (''created_at'', PNone), (''updated_at'', PNone),
      (''created_by'', PNone), (''updated_by'', PNone),
      (''name'', PStr ''Greeting''), (''key'', PStr k), (''description'', PNone),
      (''system_prompt'', PStr ''You are a helpful assistant.''),
      (''user_prompt'', PStr ''Say hello.''),
      (''is_active'', PBool True), (''version'', PInt ver),
      (''project_id'', PStr project_id), (''parent_id'', parent)]"

definition root_row :: pydict where
  "root_row = prompt_row root_id ''greeting'' 1 PNone"

definition child_row :: pydict where
  "child_row = prompt_row child_id ''greeting-v2'' 2 (PStr root_id)"

definition prompts_table :: table where
  "prompts_table =
     \<lparr>columns = map fst root_row,
      defaults = [(''is_active'', PBool True), (''version'', PInt 1)],
      rows = [root_row, child_row]\<rparr>"

definition projects_table :: table where
  "projects_table =
     \<lparr>columns = [''id'', ''created_at'', ''updated_at'', ''created_by'', ''updated_by'',
                 ''name'', ''key'', ''description'', ''team_id''],
      defaults = [],
      rows = [[(''id'', PStr project_id), (''created_at'', PNone), (''updated_at'', PNone),
               (''created_by'', PNone), (''updated_by'', PNone),
               (''name'', PStr ''Demo''), (''key'', PStr ''demo''), (''description'', PNone),
               (''team_id'', PStr ''44444444-4444-4444-4444-444444444444'')]]\<rparr>"

definition demo_world :: world where
  "demo_world =
     \<lparr>log = [], tables = [(''projects'', projects_table), (''prompts'', prompts_table)],
      uuid_count = 0\<rparr>"


definition rename_update :: pyobj where
  "rename_update =
     PObj BaseUpdateModel
       [(''name'', PStr ''Renamed''), (''description'', PNone), (''system_prompt'', PNone),
        (''user_prompt'', PNone), (''is_active'', PNone)]
       [''name'']"

definition project_kwargs :: pydict where
  "project_kwargs =
     [(''name'', PStr ''Demo''), (''key'', PStr ''demo''),
      (''team_id'', PStr ''44444444-4444-4444-4444-444444444444'')]"

definition project_create :: pyobj where
  "project_create =
     PObj BaseCreateModel
       [(''name'', PStr ''Demo''), (''key'', PStr ''demo''), (''description'', PNone),
        (''team_id'', PUuid (UUID ''44444444-4444-4444-4444-444444444444''))]
       [''name'', ''key'', ''team_id'']"

definition multiple_choices :: response where
  "multiple_choices =
     \<lparr>status_code = 300, json_body = Inr (PDict []), resp_text = ''{}'',
      reason = ''Multiple Choices''\<rparr>"

definition server_error :: response where
  \<open>server_error =
     \<lparr>status_code = 500, json_body = Inr (PDict [(''detail'', PStr ''boom'')]),
      resp_text = ''{"detail": "boom"}'', reason = ''Internal Server Error''\<rparr>\<close>

definition unauthorized :: response where
  "unauthorized =
     \<lparr>status_code = 401, json_body = Inl ''Expecting value: line 1 column 1 (char 0)'',
      resp_text = '''', reason = ''Unauthorized''\<rparr>"

definition prompt_obj :: "string \<Rightarrow> string \<Rightarrow> int \<Rightarrow> pyval \<Rightarrow> pyobj" where
  "prompt_obj ident k ver parent =
     PObj BaseModel
       [(''id'', PUuid (UUID ident)), (''created_at'', PNone), (''updated_at'', PNone),
        (''created_by'', PNone), (''updated_by'', PNone),
        (''name'', PStr ''Greeting''), (''key'', PStr k), (''description'', PNone),
        (''system_prompt'', PStr ''You are a helpful assistant.''),
        (''user_prompt'', PStr ''Say hello.''),
        (''is_active'', PBool True), (''version'', PInt ver),
        (''project_id'', PUuid (UUID project_id)), (''parent_id'', parent)]
       [''id'', ''created_at'', ''updated_at'', ''created_by'', ''updated_by'', ''name'', ''key'',
        ''description'', ''system_prompt'', ''user_prompt'', ''is_active'', ''version'',
        ''project_id'', ''parent_id'']"

definition root_prompt :: pyobj where
  "root_prompt = prompt_obj root_id ''greeting'' 1 PNone"

definition child_prompt :: pyobj where
  "child_prompt = prompt_obj child_id ''greeting-v2'' 2 (PUuid (UUID root_id))"






section \<open>Basic facts\<close>

lemma init_Inr:
  assumes "ResourceBase_init cls d a = Inr self"
  shows "db self = d" and "api self = a"
    and "mixed_mode self = (d \<noteq> None \<and> a \<noteq> None)"
    and "resource_name self = resource_name cls"
    and "model_class self = model_class cls"
    and "create_model_class self = create_model_class cls"
    and "update_model_class self = update_model_class cls"
    and "d \<noteq> None \<or> a \<noteq> None"
  using assms
  by (auto simp add: ResourceBase_init_def Option.is_none_def split: if_splits)

lemma init_dispatcher:
  "d \<noteq> None \<or> a \<noteq> None \<Longrightarrow> ResourceBase_init cls d a = Inr (dispatcher cls d a)"
  by (auto simp add: dispatcher_def ResourceBase_init_def Option.is_none_def)

lemma log_emit [simp]: "log (emit e w) = log w @ [e]"
  by (simp add: emit_def)

lemma tables_emit [simp]: "tables (emit e w) = tables w"
  by (simp add: emit_def)

lemma log_store_table [simp]: "log (store_table n t w) = log w"
  by (simp add: store_table_def)

lemma traffic_request:
  "traffic (request E c m p mc d ps) w =
     [HttpCall \<lparr>req_method = m, req_url = build_url c p,
        req_json = (case d of
                      Some (ModelData obj) \<Rightarrow>
                        (if obj_base obj = BaseModel
                         then Some (Plain (PDict (api_model_to_dict (Some obj)))) else d)
                    | _ \<Rightarrow> d),
        req_params = ps\<rparr>]"
  by (simp add: traffic_def request_def Let_def split: sum.splits)

lemma traffic_bind_return:
  "traffic (bind_io m (\<lambda>x. return_io (f x))) w = traffic m w"
  by (simp add: traffic_def bind_io_def return_io_def split: prod.splits sum.splits)

lemma traffic_db_list:
  "get_table w n = Inr t \<Longrightarrow>
   traffic (DatabaseConnection_list E n mc fs) w =
     [SqlCall (Select n (map (\<lambda>kv. filter_cond E (fst kv) (snd kv))
                          (filter (\<lambda>kv. fst kv \<in> set (columns t) \<or> collection_attr E (fst kv))
                             fs)))]"
  by (simp add: traffic_def DatabaseConnection_list_def Let_def split: sum.splits)

lemma demo_tables:
  "get_table demo_world ''projects'' = Inr projects_table"
  "get_table demo_world ''prompts'' = Inr prompts_table"
  by (simp_all add: get_table_def demo_world_def)

lemma ref_collection_attr:
  "collection_attr ref_env k = (k \<in> set [''keys'', ''values'', ''items'', ''get''])"
  by (simp add: ref_env_def)

lemma ref_bind:
  "bind ref_env (PStr s) = PStr s"
  "bind ref_env (PUuid (UUID s)) = PStr s"
  "bind ref_env (PInt i) = PInt i"
  "bind ref_env (PBool b) = PBool b"
  by (simp_all add: ref_env_def uuid_as_text_def)

section \<open>Routing of reads: the \<open>force_api\<close> override\<close>

text \<open>
  C10.  The \<open>force_api\<close> keyword of \<open>list\<close> and \<open>get\<close> has an effect in mixed mode
  only.  A dispatcher built with a database connection and no API connection hands
  \<open>list\<close> and \<open>get\<close> to the database connection whatever the keyword arguments are,
  \<open>force_api=True\<close> included; with both connections and a true \<open>force_api\<close> they go
  to the API connection; with an API connection alone they go to the API connection
  whatever the keyword arguments are.
\<close>

theorem force_api_only_in_mixed_mode:
  "(ResourceBase_init cls (Some d) None = Inr self \<longrightarrow>
      ResourceMixin_list E self kwargs =
        DatabaseConnection_list E (resource_name cls) (model_class cls) kwargs
    \<and> ResourceMixin_get E self id_or_key kwargs =
        DatabaseConnection_get E (resource_name cls) (py_str id_or_key) (model_class cls))
   \<and> (ResourceBase_init cls (Some d) (Some c) = Inr self \<and> force_api kwargs \<longrightarrow>
      ResourceMixin_list E self kwargs =
        APIConnection_list E c (resource_name cls) (model_class cls) kwargs
    \<and> ResourceMixin_get E self id_or_key kwargs =
        APIConnection_get E c (resource_name cls) (py_str id_or_key) (model_class cls))
   \<and> (ResourceBase_init cls None (Some c) = Inr self \<longrightarrow>
      ResourceMixin_list E self kwargs =
        APIConnection_list E c (resource_name cls) (model_class cls) kwargs
    \<and> ResourceMixin_get E self id_or_key kwargs =
        APIConnection_get E c (resource_name cls) (py_str id_or_key) (model_class cls))"
proof (intro conjI impI)
  assume h: "ResourceBase_init cls (Some d) None = Inr self"
  note f = init_Inr [OF h]
  show "ResourceMixin_list E self kwargs =
        DatabaseConnection_list E (resource_name cls) (model_class cls) kwargs"
    using f by (simp add: ResourceMixin_list_def self_db_def Option.is_none_def)
  show "ResourceMixin_get E self id_or_key kwargs =
        DatabaseConnection_get E (resource_name cls) (py_str id_or_key) (model_class cls)"
    using f by (simp add: ResourceMixin_get_def self_db_def get_id_from_arg_def Option.is_none_def)
next
  assume h: "ResourceBase_init cls (Some d) (Some c) = Inr self \<and> force_api kwargs"
  note f = init_Inr [OF conjunct1 [OF h]]
  show "ResourceMixin_list E self kwargs =
        APIConnection_list E c (resource_name cls) (model_class cls) kwargs"
    using f h by (simp add: ResourceMixin_list_def self_api_def Option.is_none_def)
  show "ResourceMixin_get E self id_or_key kwargs =
        APIConnection_get E c (resource_name cls) (py_str id_or_key) (model_class cls)"
    using f h by (simp add: ResourceMixin_get_def self_api_def get_id_from_arg_def Option.is_none_def)
next
  assume h: "ResourceBase_init cls None (Some c) = Inr self"
  note f = init_Inr [OF h]
  show "ResourceMixin_list E self kwargs =
        APIConnection_list E c (resource_name cls) (model_class cls) kwargs"
    using f by (simp add: ResourceMixin_list_def self_api_def Option.is_none_def)
  show "ResourceMixin_get E self id_or_key kwargs =
        APIConnection_get E c (resource_name cls) (py_str id_or_key) (model_class cls)"
    using f by (simp add: ResourceMixin_get_def self_api_def get_id_from_arg_def Option.is_none_def)
qed

theorem force_api_only_in_mixed_mode_witness:
  "ResourceBase_init Projects_class (Some demo_db) None
     = Inr (dispatcher Projects_class (Some demo_db) None)
   \<and> traffic (ResourceMixin_list ref_env (dispatcher Projects_class (Some demo_db) None)
               [(''force_api'', PBool True)]) demo_world
     = [SqlCall (Select ''projects'' [])]
   \<and> ResourceBase_init Projects_class (Some demo_db) (Some (demo_api ok_session))
     = Inr (dispatcher Projects_class (Some demo_db) (Some (demo_api ok_session)))
   \<and> force_api [(''force_api'', PBool True)]
   \<and> traffic (ResourceMixin_list ref_env
               (dispatcher Projects_class (Some demo_db) (Some (demo_api ok_session)))
               [(''force_api'', PBool True)]) demo_world
     = [HttpCall \<lparr>req_method = ''GET'', req_url = ''https://api.example.test/v1/projects'',
                  req_json = None, req_params = Some [(''force_api'', PBool True)]\<rparr>]
   \<and> ResourceBase_init Projects_class None (Some (demo_api ok_session))
     = Inr (dispatcher Projects_class None (Some (demo_api ok_session)))
   \<and> traffic (ResourceMixin_list ref_env
               (dispatcher Projects_class None (Some (demo_api ok_session))) []) demo_world
     = [HttpCall \<lparr>req_method = ''GET'', req_url = ''https://api.example.test/v1/projects'',
                  req_json = None, req_params = Some []\<rparr>]"
proof -
  let ?kw = "[(''force_api'', PBool True)]"
  have i1: "ResourceBase_init Projects_class (Some demo_db) None
     = Inr (dispatcher Projects_class (Some demo_db) None)"
    by (rule init_dispatcher) simp
  have i2: "ResourceBase_init Projects_class (Some demo_db) (Some (demo_api ok_session))
     = Inr (dispatcher Projects_class (Some demo_db) (Some (demo_api ok_session)))"
    by (rule init_dispatcher) simp
  have i3: "ResourceBase_init Projects_class None (Some (demo_api ok_session))
     = Inr (dispatcher Projects_class None (Some (demo_api ok_session)))"
    by (rule init_dispatcher) simp
  have fa: "force_api ?kw"
    by (simp add: force_api_def dict_get_def)
  have url: "build_url (demo_api ok_session) ''projects'' = ''https://api.example.test/v1/projects''"
    by (simp add: build_url_def demo_api_def APIConnection_init_def rstrip_def lstrip_def
        startswith_def)
  have t1: "traffic (ResourceMixin_list ref_env (dispatcher Projects_class (Some demo_db) None) ?kw)
              demo_world = [SqlCall (Select ''projects'' [])]"
    using force_api_only_in_mixed_mode
      [where cls = Projects_class and d = demo_db and E = ref_env and kwargs = ?kw
         and self = "dispatcher Projects_class (Some demo_db) None"] i1
    by (simp add: Projects_class_def traffic_db_list [OF demo_tables(1)] projects_table_def
        ref_collection_attr filter_cond_def)
  have t2: "traffic (ResourceMixin_list ref_env
               (dispatcher Projects_class (Some demo_db) (Some (demo_api ok_session))) ?kw)
              demo_world
     = [HttpCall \<lparr>req_method = ''GET'', req_url = ''https://api.example.test/v1/projects'',
                  req_json = None, req_params = Some ?kw\<rparr>]"
    using force_api_only_in_mixed_mode
      [where cls = Projects_class and d = demo_db and E = ref_env and kwargs = ?kw
         and c = "demo_api ok_session"
         and self = "dispatcher Projects_class (Some demo_db) (Some (demo_api ok_session))"] i2 fa
    by (simp add: Projects_class_def APIConnection_list_def traffic_request url)
  have t3: "traffic (ResourceMixin_list ref_env
               (dispatcher Projects_class None (Some (demo_api ok_session))) []) demo_world
     = [HttpCall \<lparr>req_method = ''GET'', req_url = ''https://api.example.test/v1/projects'',
                  req_json = None, req_params = Some []\<rparr>]"
    using force_api_only_in_mixed_mode
      [where cls = Projects_class and E = ref_env and kwargs = "[]"
         and c = "demo_api ok_session"
         and self = "dispatcher Projects_class None (Some (demo_api ok_session))"] i3
    by (simp add: Projects_class_def APIConnection_list_def traffic_request url)
  show ?thesis using i1 i2 i3 fa t1 t2 t3 by simp
qed

lemma demo_url:
  "build_url (demo_api s) p =
     ''https://api.example.test/'' @
       (if \<not> startswith (lstrip (CHR ''/'') p) ''v1/'' then ''v1/'' @ lstrip (CHR ''/'') p
        else lstrip (CHR ''/'') p)"
  by (simp add: build_url_def demo_api_def APIConnection_init_def rstrip_def Let_def)

lemma demo_api_fields [simp]:
  "session_request (demo_api s) = s"
  by (simp add: demo_api_def APIConnection_init_def)

lemma dispatcher_eq:
  "dispatcher cls (Some d) (Some a) =
     \<lparr>resource_name = resource_name cls, model_class = model_class cls,
      create_model_class = create_model_class cls, update_model_class = update_model_class cls,
      db = Some d, api = Some a, mixed_mode = True\<rparr>"
  "dispatcher cls (Some d) None =
     \<lparr>resource_name = resource_name cls, model_class = model_class cls,
      create_model_class = create_model_class cls, update_model_class = update_model_class cls,
      db = Some d, api = None, mixed_mode = False\<rparr>"
  "dispatcher cls None (Some a) =
     \<lparr>resource_name = resource_name cls, model_class = model_class cls,
      create_model_class = create_model_class cls, update_model_class = update_model_class cls,
      db = None, api = Some a, mixed_mode = False\<rparr>"
  by (simp_all add: dispatcher_def ResourceBase_init_def Option.is_none_def)

section \<open>The write-through wrapper\<close>

text \<open>
  C9.  When a call wrapped by \<open>api_write_only\<close> raises (an API connection being
  present), the wrapper raises too and never returns a value: an authentication,
  validation or not-found failure is raised again as an error of the same class whose
  message holds the operation name and the original message; any other exception is
  raised as a plain \<open>APIError\<close>.
\<close>

theorem api_write_only_retags:
  assumes "api self \<noteq> None" and "wrapped self w = (Inl e, w')"
  shows "(exn_class e = AuthenticationError \<longrightarrow>
            api_write_only name wrapped self w =
              (Inl (Exn AuthenticationError
                 (PStr (''Failed to authenticate when performing '' @ name @ '': '' @ str_exn e))), w'))
       \<and> (exn_class e = ValidationError \<longrightarrow>
            api_write_only name wrapped self w =
              (Inl (Exn ValidationError (PStr (''Invalid data for '' @ name @ '': '' @ str_exn e))), w'))
       \<and> (exn_class e = NotFoundError \<longrightarrow>
            api_write_only name wrapped self w =
              (Inl (Exn NotFoundError (PStr (''Resource not found in '' @ name @ '': '' @ str_exn e))), w'))
       \<and> (exn_class e \<notin> {AuthenticationError, ValidationError, NotFoundError}
            \<and> is_APIError (exn_class e) \<longrightarrow>
            api_write_only name wrapped self w =
              (Inl (Exn APIError (PStr (''API error occurred during '' @ name @ '': '' @ str_exn e))), w'))
       \<and> (\<not> is_APIError (exn_class e) \<longrightarrow>
            api_write_only name wrapped self w =
              (Inl (Exn APIError (PStr (''Unexpected error during '' @ name @ '': '' @ str_exn e))), w'))
       \<and> (\<forall>v w''. api_write_only name wrapped self w \<noteq> (Inr v, w''))"
  using assms
  by (cases "api self")
    (auto simp add: api_write_only_def retag_def is_APIError_def Option.is_none_def)

theorem api_write_only_retags_witness:
  "api (dispatcher Users_class None (Some (demo_api not_found_session))) \<noteq> None
   \<and> self_api (dispatcher Users_class None (Some (demo_api not_found_session))) ''delete''
        (\<lambda>c. APIConnection_delete_call ref_env c [''users'', ''alice'']) demo_world
      = (Inl (Exn NotFoundError (PStr ''User not found'')),
         emit (HttpCall \<lparr>req_method = ''DELETE'',
                 req_url = ''https://api.example.test/v1/users/alice'',
                 req_json = None, req_params = None\<rparr>) demo_world)
   \<and> api_write_only ''delete''
        (\<lambda>self. self_api self ''delete''
                  (\<lambda>c. APIConnection_delete_call ref_env c [''users'', ''alice'']))
        (dispatcher Users_class None (Some (demo_api not_found_session))) demo_world
      = (Inl (Exn NotFoundError (PStr ''Resource not found in delete: User not found'')),
         emit (HttpCall \<lparr>req_method = ''DELETE'',
                 req_url = ''https://api.example.test/v1/users/alice'',
                 req_json = None, req_params = None\<rparr>) demo_world)"
proof -
  let ?self = "dispatcher Users_class None (Some (demo_api not_found_session))"
  let ?m = "\<lambda>self. self_api self ''delete''
                  (\<lambda>c. APIConnection_delete_call ref_env c [''users'', ''alice''])"
  let ?w' = "emit (HttpCall \<lparr>req_method = ''DELETE'',
                 req_url = ''https://api.example.test/v1/users/alice'',
                 req_json = None, req_params = None\<rparr>) demo_world"
  have a: "api ?self \<noteq> None" by (simp add: dispatcher_eq)
  have m: "?m ?self demo_world = (Inl (Exn NotFoundError (PStr ''User not found'')), ?w')"
    by (simp add: dispatcher_eq self_api_def APIConnection_delete_call_def APIConnection_delete_def
        bind_io_def request_def demo_url startswith_def lstrip_def not_found_session_def
        handle_response_def raises_for_status_def error_detail_def py_or_def dict_get_def)
  from api_write_only_retags [where name = "''delete''" and wrapped = ?m, OF a m] a m
  show ?thesis
    by (simp add: py_str_def)
qed

section \<open>Write-through resources\<close>

text \<open>
  Without an API connection every wrapped write raises the configuration error before its
  body runs.  With one, each write method other than \<open>remove_member\<close> hands exactly
  one request to the HTTP session (\<open>create\<close> and \<open>update\<close> after their model has been
  built) and issues no SQL.
\<close>

lemma api_write_only_no_api:
  "api self = None \<Longrightarrow>
   api_write_only name m self w =
     (Inl (Exn ValueError (PStr (''API connection is required for '' @ name
        @ ''. Please initialize the client with an API connection.''))), w)"
  by (simp add: api_write_only_def Option.is_none_def)

lemma write_through_requires_api:
  assumes "api self = None"
  shows "\<forall>name \<in> {''create'', ''update'', ''delete'', ''add_member'', ''remove_member'',
           ''update_member_role'', ''invite'', ''activate'', ''deactivate'', ''change_password''}.
         \<forall>m. api_write_only name m self w =
           (Inl (Exn ValueError (PStr (''API connection is required for '' @ name
              @ ''. Please initialize the client with an API connection.''))), w)"
  using assms by (simp add: api_write_only_no_api)

lemma traffic_api_write_only:
  "api self = Some c \<Longrightarrow> traffic (api_write_only name m self) w = traffic (m self) w"
  by (auto simp add: traffic_def api_write_only_def Option.is_none_def
      split: prod.splits sum.splits)

lemma traffic_self_api:
  "api self = Some c \<Longrightarrow> traffic (self_api self name f) w = traffic (f c) w"
  by (simp add: self_api_def)

lemma traffic_bind_lift:
  "traffic (bind_io (lift_io r) f) w = (case r of Inl e \<Rightarrow> [] | Inr x \<Rightarrow> traffic (f x) w)"
  by (simp add: traffic_def bind_io_def lift_io_def split: sum.splits)

lemma write_through_uses_api:
  assumes "api self = Some c"
  shows "list_all is_http (traffic (WriteThru_create E kwargs self) w)"
    and "list_all is_http (traffic (WriteThru_update E i kwargs self) w)"
    and "traffic (WriteThru_delete E i self) w =
           [HttpCall \<lparr>req_method = ''DELETE'',
              req_url = build_url c (resource_name self @ ''/'' @ py_str i),
              req_json = None, req_params = None\<rparr>]"
    and "traffic (Teams_add_member E t u role self) w =
           [HttpCall \<lparr>req_method = ''POST'',
              req_url = build_url c (resource_name self @ ''/'' @ py_str t @ ''/members''),
              req_json = Some (Plain (PDict [(''user_id'', PStr (py_str u)), (''role'', PStr role)])),
              req_params = None\<rparr>]"
    and "traffic (Teams_update_member_role E t u role self) w =
           [HttpCall \<lparr>req_method = ''PUT'',
              req_url = build_url c
                (resource_name self @ ''/'' @ py_str t @ ''/members/'' @ py_str u @ ''/''),
              req_json = Some (Plain (PDict [(''role'', PStr role)])), req_params = None\<rparr>]"
    and "traffic (Users_invite E email full_name self) w =
           [HttpCall \<lparr>req_method = ''POST'', req_url = build_url c (resource_name self @ ''/invite''),
              req_json = Some (Plain (PDict [(''email'', PStr email), (''full_name'', full_name)])),
              req_params = None\<rparr>]"
    and "traffic (Users_activate E i self) w =
           [HttpCall \<lparr>req_method = ''POST'',
              req_url = build_url c (resource_name self @ ''/'' @ py_str i @ ''/activate''),
              req_json = Some (Plain (PDict [])), req_params = None\<rparr>]"
    and "traffic (Users_deactivate E i self) w =
           [HttpCall \<lparr>req_method = ''POST'',
              req_url = build_url c (resource_name self @ ''/'' @ py_str i @ ''/deactivate''),
              req_json = Some (Plain (PDict [])), req_params = None\<rparr>]"
    and "traffic (Users_change_password E i old new self) w =
           [HttpCall \<lparr>req_method = ''POST'',
              req_url = build_url c (resource_name self @ ''/'' @ py_str i @ ''/change-password''),
              req_json = Some (Plain (PDict [(''current_password'', PStr old),
                                             (''new_password'', PStr new)])),
              req_params = None\<rparr>]"
  using assms
  by (simp_all add: WriteThru_create_def WriteThru_update_def WriteThru_delete_def
      Teams_add_member_def Teams_update_member_role_def Users_invite_def Users_activate_def
      Users_deactivate_def Users_change_password_def
      traffic_api_write_only traffic_self_api traffic_bind_lift traffic_bind_return
      traffic_request Let_def get_id_from_arg_def
      APIConnection_create_def APIConnection_update_def APIConnection_delete_call_def
      APIConnection_delete_def split: sum.splits)

lemma Teams_remove_member_raises:
  assumes "api self = Some c"
  shows "Teams_remove_member E team_id user_id self w =
     (Inl (Exn APIError (PStr (''Unexpected error during remove_member: ''
        @ ''APIConnection.delete() missing 1 required positional argument: ''
        @ repr_str ''resource_id''))), w)"
  using assms
  by (simp add: Teams_remove_member_def api_write_only_def Let_def self_api_def
      APIConnection_delete_call_def raise_io_def retag_def is_APIError_def py_str_def
      Option.is_none_def)

text \<open>
  C1.  \<open>Teams.remove_member\<close> calls \<open>self.api.delete\<close> with the path alone, while
  \<open>APIConnection.delete\<close> requires a path and an identifier: with an API connection
  present the call raises \<open>TypeError\<close> before the HTTP backend runs, the wrapper turns it
  into an \<open>APIError\<close>, and no request is sent.  Evaluated here on a mixed-mode team
  dispatcher: the world, log included, is unchanged.
\<close>

theorem Teams_remove_member_reaches_no_backend:
  "Teams_remove_member ref_env (PStr ''team-1'') (PStr ''user-1'')
     (dispatcher Teams_class (Some demo_db) (Some (demo_api ok_session))) demo_world
   = (Inl (Exn APIError (PStr (''Unexpected error during remove_member: ''
        @ ''APIConnection.delete() missing 1 required positional argument: ''
        @ repr_str ''resource_id''))), demo_world)"
  by (rule Teams_remove_member_raises) (simp add: dispatcher_eq)


section \<open>Rows that are not there\<close>

lemma prompts_lookup_key:
  "uuid_parse ref_env ''no-such-key'' = None"
  by (simp add: ref_env_def hex_uuid_def)

text \<open>
  C7.  On a key that matches no row of the \<open>prompts\<close> table, \<open>get\<close> returns \<open>None\<close>
  and \<open>delete\<close> returns \<open>False\<close>, but \<open>update\<close> passes the missing row to
  \<open>dict()\<close> and raises \<open>TypeError\<close>.
\<close>

theorem DatabaseConnection_update_missing_row_raises:
  "fst (DatabaseConnection_get ref_env ''prompts'' ''no-such-key'' (Some (Model ''Prompt''))
          demo_world) = Inr (Raw PNone)
   \<and> fst (DatabaseConnection_delete ref_env ''prompts'' ''no-such-key'' demo_world)
       = Inr (Raw (PBool False))
   \<and> fst (DatabaseConnection_update ref_env ''prompts'' ''no-such-key'' rename_update
          (Some (Model ''Prompt'')) demo_world)
       = Inl (Exn TypeError (PStr (repr_str ''NoneType'' @ '' object is not iterable'')))"
  by (simp add: DatabaseConnection_get_def DatabaseConnection_delete_def
      DatabaseConnection_update_def demo_tables lookup_condition_def prompts_lookup_key
      column_def prompts_table_def root_row_def child_row_def prompt_row_def Let_def
      run_select_def run_update_def rowcount_def row_matches_def ref_bind
      dict_get_def fetchone_def row_dict_def)

section \<open>Standard resources in mixed mode\<close>

lemma bind_lift_io:
  "bind_io (lift_io r) f w = (case r of Inl e \<Rightarrow> (Inl e, w) | Inr x \<Rightarrow> f x w)"
  by (simp add: bind_io_def lift_io_def split: sum.splits)

lemma delete_call_two:
  "APIConnection_delete_call E c [p, i] = APIConnection_delete E c p i"
  by (simp add: APIConnection_delete_call_def)

lemma validate_project_kwargs:
  "call_class ref_env (Some (Model ''ProjectCreate'')) project_kwargs = Inr project_create"
  by (simp add: call_class_def ref_env_def validate_def declared_def project_kwargs_def
      project_create_def check_field_def required_def optional_def check_value_def hex_uuid_def
      is_hex_def lower_def hyphenate_def)

text \<open>
  C2, as stated, fails for \<open>Activities\<close>: the class declares no create or update model,
  so \<open>create\<close> in mixed mode raises \<open>TypeError\<close> when it calls
  \<open>self.create_model_class\<close>, and the world is left as it was: nothing reaches the
  API connection.
\<close>

theorem Activities_create_reaches_no_backend:
  "ResourceMixin_create ref_env
     (dispatcher Activities_class (Some demo_db) (Some (demo_api ok_session)))
     [(''user_id'', PStr ''44444444-4444-4444-4444-444444444444''),
      (''activity_type'', PStr ''login''), (''timestamp'', PStr ''2024-01-01T00:00:00'')]
     demo_world
   = (Inl (Exn TypeError (PStr (repr_str ''NoneType'' @ '' object is not callable''))), demo_world)"
  by (simp add: ResourceMixin_create_def bind_lift_io dispatcher_eq Activities_class_def
      call_class_def)

text \<open>
  C2, amended.  For a standard resource dispatcher built with both connections and a call
  without a \<open>force_api\<close> override: \<open>list\<close> and \<open>get\<close> are the database connection's
  \<open>list\<close> and \<open>get\<close>; \<open>delete\<close> is the API connection's \<open>delete\<close>; \<open>create\<close> and
  \<open>update\<close> first build the resource's create or update model from the keyword
  arguments and, once it is built, are the API connection's \<open>create\<close> and \<open>update\<close>;
  when the model cannot be built the call raises and reaches no backend, which is always
  so for \<open>Activities\<close>.
\<close>

theorem standard_mixed_mode_routing:
  assumes "ResourceBase_init cls (Some d) (Some c) = Inr self" and "\<not> force_api kwargs"
  shows "ResourceMixin_list E self kwargs =
           DatabaseConnection_list E (resource_name cls) (model_class cls) kwargs
       \<and> ResourceMixin_get E self id_or_key kwargs =
           DatabaseConnection_get E (resource_name cls) (py_str id_or_key) (model_class cls)
       \<and> ResourceMixin_delete E self id_or_key kwargs =
           APIConnection_delete E c (resource_name cls) (py_str id_or_key)
       \<and> ResourceMixin_create E self kwargs w =
           (case call_class E (create_model_class cls) kwargs of
              Inl e \<Rightarrow> (Inl e, w)
            | Inr data \<Rightarrow>
                APIConnection_create E c (resource_name cls) (ModelData data) (model_class cls) w)
       \<and> ResourceMixin_update E self id_or_key kwargs w =
           (case call_class E (update_model_class cls) kwargs of
              Inl e \<Rightarrow> (Inl e, w)
            | Inr data \<Rightarrow>
                APIConnection_update E c (resource_name cls) (py_str id_or_key) (ModelData data)
                  (model_class cls) w)
       \<and> (cls = Activities_class \<longrightarrow>
            ResourceMixin_create E self kwargs w =
              (Inl (Exn TypeError (PStr (repr_str ''NoneType'' @ '' object is not callable''))), w)
          \<and> ResourceMixin_update E self id_or_key kwargs w =
              (Inl (Exn TypeError (PStr (repr_str ''NoneType'' @ '' object is not callable''))), w))"
proof -
  note f = init_Inr [OF assms(1)]
  have l: "ResourceMixin_list E self kwargs =
           DatabaseConnection_list E (resource_name cls) (model_class cls) kwargs"
    using f assms(2) by (simp add: ResourceMixin_list_def self_db_def Option.is_none_def)
  have g: "ResourceMixin_get E self id_or_key kwargs =
           DatabaseConnection_get E (resource_name cls) (py_str id_or_key) (model_class cls)"
    using f assms(2)
    by (simp add: ResourceMixin_get_def self_db_def get_id_from_arg_def Option.is_none_def)
  have dl: "ResourceMixin_delete E self id_or_key kwargs =
           APIConnection_delete E c (resource_name cls) (py_str id_or_key)"
    using f by (simp add: ResourceMixin_delete_def self_api_def get_id_from_arg_def delete_call_two)
  have cr: "ResourceMixin_create E self kwargs w =
           (case call_class E (create_model_class cls) kwargs of
              Inl e \<Rightarrow> (Inl e, w)
            | Inr data \<Rightarrow>
                APIConnection_create E c (resource_name cls) (ModelData data) (model_class cls) w)"
    using f by (simp add: ResourceMixin_create_def bind_lift_io self_api_def)
  have up: "ResourceMixin_update E self id_or_key kwargs w =
           (case call_class E (update_model_class cls) kwargs of
              Inl e \<Rightarrow> (Inl e, w)
            | Inr data \<Rightarrow>
                APIConnection_update E c (resource_name cls) (py_str id_or_key) (ModelData data)
                  (model_class cls) w)"
    using f by (simp add: ResourceMixin_update_def bind_lift_io self_api_def get_id_from_arg_def)
  have act: "cls = Activities_class \<longrightarrow>
            ResourceMixin_create E self kwargs w =
              (Inl (Exn TypeError (PStr (repr_str ''NoneType'' @ '' object is not callable''))), w)
          \<and> ResourceMixin_update E self id_or_key kwargs w =
              (Inl (Exn TypeError (PStr (repr_str ''NoneType'' @ '' object is not callable''))), w)"
    using cr up by (simp add: Activities_class_def call_class_def)
  from l g dl cr up act show ?thesis by blast
qed

theorem standard_mixed_mode_routing_witness:
  "ResourceBase_init Projects_class (Some demo_db) (Some (demo_api ok_session))
     = Inr (dispatcher Projects_class (Some demo_db) (Some (demo_api ok_session)))
   \<and> \<not> force_api project_kwargs \<and> \<not> force_api []
   \<and> traffic (ResourceMixin_list ref_env
        (dispatcher Projects_class (Some demo_db) (Some (demo_api ok_session))) []) demo_world
      = [SqlCall (Select ''projects'' [])]
   \<and> traffic (ResourceMixin_create ref_env
        (dispatcher Projects_class (Some demo_db) (Some (demo_api ok_session))) project_kwargs)
        demo_world
      = [HttpCall \<lparr>req_method = ''POST'', req_url = ''https://api.example.test/v1/projects'',
           req_json = Some (ModelData project_create), req_params = None\<rparr>]
   \<and> traffic (ResourceMixin_delete ref_env
        (dispatcher Projects_class (Some demo_db) (Some (demo_api ok_session)))
        (PStr ''demo'') []) demo_world
      = [HttpCall \<lparr>req_method = ''DELETE'', req_url = ''https://api.example.test/v1/projects/demo'',
           req_json = None, req_params = None\<rparr>]"
proof -
  let ?self = "dispatcher Projects_class (Some demo_db) (Some (demo_api ok_session))"
  have i: "ResourceBase_init Projects_class (Some demo_db) (Some (demo_api ok_session)) = Inr ?self"
    by (rule init_dispatcher) simp
  have n1: "\<not> force_api project_kwargs"
    by (simp add: force_api_def dict_get_def project_kwargs_def)
  have n2: "\<not> force_api []"
    by (simp add: force_api_def dict_get_def)
  note r1 = standard_mixed_mode_routing [OF i n2, where E = ref_env and w = demo_world
      and id_or_key = "PStr ''demo''"]
  note r2 = standard_mixed_mode_routing [OF i n1, where E = ref_env and w = demo_world]
  have t1: "traffic (ResourceMixin_list ref_env ?self []) demo_world
      = [SqlCall (Select ''projects'' [])]"
    using r1 by (simp add: Projects_class_def traffic_db_list [OF demo_tables(1)])
  have t2: "traffic (ResourceMixin_create ref_env ?self project_kwargs) demo_world
      = [HttpCall \<lparr>req_method = ''POST'', req_url = ''https://api.example.test/v1/projects'',
           req_json = Some (ModelData project_create), req_params = None\<rparr>]"
  proof -
    from r2 have "ResourceMixin_create ref_env ?self project_kwargs demo_world
        = APIConnection_create ref_env (demo_api ok_session) ''projects''
            (ModelData project_create) (Some (Model ''Project'')) demo_world"
      by (simp add: Projects_class_def validate_project_kwargs)
    then have "traffic (ResourceMixin_create ref_env ?self project_kwargs) demo_world
        = traffic (APIConnection_create ref_env (demo_api ok_session) ''projects''
            (ModelData project_create) (Some (Model ''Project''))) demo_world"
      by (simp add: traffic_def)
    then show ?thesis
      by (simp add: APIConnection_create_def traffic_request demo_url startswith_def lstrip_def
          project_create_def)
  qed
  have t3: "traffic (ResourceMixin_delete ref_env ?self (PStr ''demo'') []) demo_world
      = [HttpCall \<lparr>req_method = ''DELETE'', req_url = ''https://api.example.test/v1/projects/demo'',
           req_json = None, req_params = None\<rparr>]"
    using r1
    by (simp add: Projects_class_def APIConnection_delete_def traffic_bind_return traffic_request
        demo_url startswith_def lstrip_def py_str_def)
  from i n1 n2 t1 t2 t3 show ?thesis by simp
qed

section \<open>Reads in mixed mode\<close>

lemma py_str_PStr [simp]: "py_str (PStr s) = s"
  by (simp add: py_str_def)

text \<open>
  C6, as stated, fails for the read extensions: in mixed mode \<open>Projects.get_prompts\<close>
  sends a GET request to the API backend and issues no SQL.
\<close>

theorem Projects_get_prompts_mixed_uses_api:
  "traffic (Projects_get_prompts ref_env
      (dispatcher Projects_class (Some demo_db) (Some (demo_api ok_session))) (PStr project_id))
      demo_world
   = [HttpCall \<lparr>req_method = ''GET'',
        req_url = ''https://api.example.test/v1/projects/33333333-3333-3333-3333-333333333333/prompts'',
        req_json = None, req_params = Some []\<rparr>]"
  by (simp add: Projects_get_prompts_def dispatcher_eq self_api_def get_id_from_arg_def
      Option.is_none_def APIConnection_list_def traffic_request demo_url startswith_def
      lstrip_def Projects_class_def project_id_def)

text \<open>
  C6, amended.  In mixed mode \<open>list\<close> and \<open>get\<close> of a standard resource, called without
  a \<open>force_api\<close> override, query the database backend; the read extensions
  \<open>Projects.get_prompts\<close>, \<open>Prompts.get_versions\<close>, \<open>Teams.get_members\<close>,
  \<open>Users.get_teams\<close> and \<open>Activities.list_for_user\<close> test
  \<open>self.db and not self.mixed_mode\<close> and query the API backend in mixed mode; they query
  the database backend only when no API connection is present (\<open>get_versions\<close> in that
  mode is the subject of C5).
\<close>

theorem extension_reads_routing:
  "(ResourceBase_init cls (Some d) (Some c) = Inr self \<longrightarrow>
      (\<not> force_api kwargs \<longrightarrow>
         ResourceMixin_list E self kwargs =
           DatabaseConnection_list E (resource_name cls) (model_class cls) kwargs
       \<and> ResourceMixin_get E self x kwargs =
           DatabaseConnection_get E (resource_name cls) (py_str x) (model_class cls))
    \<and> Projects_get_prompts E self x =
         APIConnection_list E c (resource_name cls @ ''/'' @ py_str x @ ''/prompts'')
           (Some (Model ''Prompt'')) []
    \<and> Prompts_get_versions E self x =
         APIConnection_list E c (resource_name cls @ ''/'' @ py_str x @ ''/versions'')
           (Some (Model ''Prompt'')) []
    \<and> Activities_list_for_user E self x kwargs =
         APIConnection_list E c (resource_name cls @ ''?user_id='' @ py_str x)
           (Some (Model ''Activity'')) kwargs
    \<and> Teams_get_members E self x =
         try_read (read_handler ''Team'' ''members for team'' (py_str x))
           (APIConnection_list E c (resource_name cls @ ''/'' @ py_str x @ ''/members'')
              (Some (Model ''User'')) [])
    \<and> Users_get_teams E self x =
         try_read (read_handler ''User'' ''teams for user'' (py_str x))
           (APIConnection_list E c (resource_name cls @ ''/'' @ py_str x @ ''/teams'')
              (Some (Model ''Team'')) []))
   \<and> (ResourceBase_init cls (Some d) None = Inr self \<longrightarrow>
      Projects_get_prompts E self x =
         DatabaseConnection_list E ''prompts'' (Some (Model ''Prompt''))
           [(''project_id'', PStr (py_str x))]
    \<and> Activities_list_for_user E self x kwargs =
         DatabaseConnection_list E (resource_name cls) (Some (Model ''Activity''))
           ((''user_id'', PStr (py_str x)) # kwargs)
    \<and> Teams_get_members E self x =
         try_read (read_handler ''Team'' ''members for team'' (py_str x))
           (DatabaseConnection_get_team_members E (py_str x))
    \<and> Users_get_teams E self x =
         try_read (read_handler ''User'' ''teams for user'' (py_str x))
           (DatabaseConnection_get_user_teams E (py_str x)))"
proof (intro conjI impI)
  assume h: "ResourceBase_init cls (Some d) (Some c) = Inr self"
  note f = init_Inr [OF h]
  show "Projects_get_prompts E self x =
         APIConnection_list E c (resource_name cls @ ''/'' @ py_str x @ ''/prompts'')
           (Some (Model ''Prompt'')) []"
    using f by (simp add: Projects_get_prompts_def self_api_def get_id_from_arg_def)
  show "Prompts_get_versions E self x =
         APIConnection_list E c (resource_name cls @ ''/'' @ py_str x @ ''/versions'')
           (Some (Model ''Prompt'')) []"
    using f by (simp add: Prompts_get_versions_def self_api_def get_id_from_arg_def)
  show "Activities_list_for_user E self x kwargs =
         APIConnection_list E c (resource_name cls @ ''?user_id='' @ py_str x)
           (Some (Model ''Activity'')) kwargs"
    using f by (simp add: Activities_list_for_user_def self_api_def get_id_from_arg_def)
  show "Teams_get_members E self x =
         try_read (read_handler ''Team'' ''members for team'' (py_str x))
           (APIConnection_list E c (resource_name cls @ ''/'' @ py_str x @ ''/members'')
              (Some (Model ''User'')) [])"
    using f by (simp add: Teams_get_members_def self_api_def get_id_from_arg_def Let_def)
  show "Users_get_teams E self x =
         try_read (read_handler ''User'' ''teams for user'' (py_str x))
           (APIConnection_list E c (resource_name cls @ ''/'' @ py_str x @ ''/teams'')
              (Some (Model ''Team'')) [])"
    using f by (simp add: Users_get_teams_def self_api_def get_id_from_arg_def Let_def)
  assume n: "\<not> force_api kwargs"
  show "ResourceMixin_list E self kwargs =
           DatabaseConnection_list E (resource_name cls) (model_class cls) kwargs"
    using f n by (simp add: ResourceMixin_list_def self_db_def Option.is_none_def)
  show "ResourceMixin_get E self x kwargs =
           DatabaseConnection_get E (resource_name cls) (py_str x) (model_class cls)"
    using f n
    by (simp add: ResourceMixin_get_def self_db_def get_id_from_arg_def Option.is_none_def)
next
  assume h: "ResourceBase_init cls (Some d) None = Inr self"
  note f = init_Inr [OF h]
  show "Projects_get_prompts E self x =
         DatabaseConnection_list E ''prompts'' (Some (Model ''Prompt''))
           [(''project_id'', PStr (py_str x))]"
    using f
    by (simp add: Projects_get_prompts_def self_db_def get_id_from_arg_def Option.is_none_def)
  show "Activities_list_for_user E self x kwargs =
         DatabaseConnection_list E (resource_name cls) (Some (Model ''Activity''))
           ((''user_id'', PStr (py_str x)) # kwargs)"
    using f
    by (simp add: Activities_list_for_user_def self_db_def get_id_from_arg_def Option.is_none_def)
  show "Teams_get_members E self x =
         try_read (read_handler ''Team'' ''members for team'' (py_str x))
           (DatabaseConnection_get_team_members E (py_str x))"
    using f
    by (simp add: Teams_get_members_def self_db_def get_id_from_arg_def Option.is_none_def Let_def)
  show "Users_get_teams E self x =
         try_read (read_handler ''User'' ''teams for user'' (py_str x))
           (DatabaseConnection_get_user_teams E (py_str x))"
    using f
    by (simp add: Users_get_teams_def self_db_def get_id_from_arg_def Option.is_none_def Let_def)
qed

theorem extension_reads_routing_witness:
  "ResourceBase_init Prompts_class (Some demo_db) (Some (demo_api ok_session))
     = Inr (dispatcher Prompts_class (Some demo_db) (Some (demo_api ok_session)))
   \<and> \<not> force_api []
   \<and> traffic (ResourceMixin_list ref_env
        (dispatcher Prompts_class (Some demo_db) (Some (demo_api ok_session))) []) demo_world
      = [SqlCall (Select ''prompts'' [])]
   \<and> traffic (Prompts_get_versions ref_env
        (dispatcher Prompts_class (Some demo_db) (Some (demo_api ok_session))) (PStr ''greeting''))
        demo_world
      = [HttpCall \<lparr>req_method = ''GET'',
           req_url = ''https://api.example.test/v1/prompts/greeting/versions'',
           req_json = None, req_params = Some []\<rparr>]
   \<and> ResourceBase_init Projects_class (Some demo_db) None
     = Inr (dispatcher Projects_class (Some demo_db) None)
   \<and> traffic (Projects_get_prompts ref_env (dispatcher Projects_class (Some demo_db) None)
        (PStr project_id)) demo_world
      = [SqlCall (Select ''prompts'' [ColEq ''project_id'' (PStr project_id)])]"
proof -
  let ?mixed = "dispatcher Prompts_class (Some demo_db) (Some (demo_api ok_session))"
  let ?dbonly = "dispatcher Projects_class (Some demo_db) None"
  have i1: "ResourceBase_init Prompts_class (Some demo_db) (Some (demo_api ok_session)) = Inr ?mixed"
    by (rule init_dispatcher) simp
  have i2: "ResourceBase_init Projects_class (Some demo_db) None = Inr ?dbonly"
    by (rule init_dispatcher) simp
  have n: "\<not> force_api []"
    by (simp add: force_api_def dict_get_def)
  note r1 = extension_reads_routing [where cls = Prompts_class and d = demo_db
      and c = "demo_api ok_session" and self = ?mixed and E = ref_env and kwargs = "[]"
      and x = "PStr ''greeting''"]
  note r2 = extension_reads_routing [where cls = Projects_class and d = demo_db
      and self = ?dbonly and E = ref_env and x = "PStr project_id"]
  have t1: "traffic (ResourceMixin_list ref_env ?mixed []) demo_world
      = [SqlCall (Select ''prompts'' [])]"
    using r1 i1 n by (simp add: Prompts_class_def traffic_db_list [OF demo_tables(2)])
  have t2: "traffic (Prompts_get_versions ref_env ?mixed (PStr ''greeting'')) demo_world
      = [HttpCall \<lparr>req_method = ''GET'',
           req_url = ''https://api.example.test/v1/prompts/greeting/versions'',
           req_json = None, req_params = Some []\<rparr>]"
    using r1 i1
    by (simp add: Prompts_class_def APIConnection_list_def traffic_request demo_url
        startswith_def lstrip_def)
  have t3: "traffic (Projects_get_prompts ref_env ?dbonly (PStr project_id)) demo_world
      = [SqlCall (Select ''prompts'' [ColEq ''project_id'' (PStr project_id)])]"
    using r2 i2
    by (simp add: traffic_db_list [OF demo_tables(2)] prompts_table_def root_row_def
        prompt_row_def ref_collection_attr filter_cond_def)
  from i1 i2 n t1 t2 t3 show ?thesis by simp
qed

section \<open>Identifier first, key second\<close>

lemma lookup_condition_columns:
  "''id'' \<in> set (columns t) \<Longrightarrow> ''key'' \<in> set (columns t) \<Longrightarrow>
   lookup_condition E t s =
     Inr (case uuid_parse E s of Some u \<Rightarrow> ColEq ''id'' (PUuid u) | None \<Rightarrow> ColEq ''key'' (PStr s))"
  by (simp add: lookup_condition_def column_def split: option.splits)

lemma parse_demo_ids:
  "uuid_parse ref_env root_id = Some (UUID root_id)"
  "uuid_parse ref_env child_id = Some (UUID child_id)"
  "uuid_parse ref_env project_id = Some (UUID project_id)"
  "uuid_parse ref_env ''greeting'' = None"
  by (simp_all add: ref_env_def hex_uuid_def root_id_def child_id_def project_id_def is_hex_def
      lower_def hyphenate_def)

lemma prompts_columns:
  "''id'' \<in> set (columns prompts_table)" "''key'' \<in> set (columns prompts_table)"
  "''parent_id'' \<in> set (columns prompts_table)"
  by (simp_all add: prompts_table_def root_row_def prompt_row_def)

text \<open>
  C3.  For every string given to \<open>get\<close>, \<open>update\<close> or \<open>delete\<close> of the database
  connection, on a table that has an \<open>id\<close> and a \<open>key\<close> column: when \<open>uuid.UUID\<close>
  accepts the string, the lookup condition and every statement the operation issues
  compare the \<open>id\<close> column with that UUID; when it raises \<open>ValueError\<close>, they compare the
  \<open>key\<close> column with the string.
\<close>

theorem lookup_by_id_then_key:
  assumes "get_table w name = Inr t"
    and "''id'' \<in> set (columns t)" and "''key'' \<in> set (columns t)"
  shows "(\<forall>u. uuid_parse E s = Some u \<longrightarrow>
            lookup_condition E t s = Inr (ColEq ''id'' (PUuid u))
          \<and> traffic (DatabaseConnection_get E name s mc) w
              = [SqlCall (Select name [ColEq ''id'' (PUuid u)])]
          \<and> traffic (DatabaseConnection_update E name s data mc) w
              = [SqlCall (Update name [ColEq ''id'' (PUuid u)] (db_model_to_dict data)),
                 SqlCall (Select name [ColEq ''id'' (PUuid u)])]
          \<and> traffic (DatabaseConnection_delete E name s) w
              = [SqlCall (Delete name [ColEq ''id'' (PUuid u)])])
       \<and> (uuid_parse E s = None \<longrightarrow>
            lookup_condition E t s = Inr (ColEq ''key'' (PStr s))
          \<and> traffic (DatabaseConnection_get E name s mc) w
              = [SqlCall (Select name [ColEq ''key'' (PStr s)])]
          \<and> traffic (DatabaseConnection_update E name s data mc) w
              = [SqlCall (Update name [ColEq ''key'' (PStr s)] (db_model_to_dict data)),
                 SqlCall (Select name [ColEq ''key'' (PStr s)])]
          \<and> traffic (DatabaseConnection_delete E name s) w
              = [SqlCall (Delete name [ColEq ''key'' (PStr s)])])"
proof -
  note lc = lookup_condition_columns [OF assms(2,3), of E s]
  have g: "traffic (DatabaseConnection_get E name s mc) w
      = [SqlCall (Select name
           [case uuid_parse E s of Some u \<Rightarrow> ColEq ''id'' (PUuid u) | None \<Rightarrow> ColEq ''key'' (PStr s)])]"
    using assms(1) lc
    by (simp add: traffic_def DatabaseConnection_get_def Let_def split: option.splits sum.splits)
  have u: "traffic (DatabaseConnection_update E name s data mc) w
      = [SqlCall (Update name
           [case uuid_parse E s of Some u \<Rightarrow> ColEq ''id'' (PUuid u) | None \<Rightarrow> ColEq ''key'' (PStr s)]
           (db_model_to_dict data)),
         SqlCall (Select name
           [case uuid_parse E s of Some u \<Rightarrow> ColEq ''id'' (PUuid u) | None \<Rightarrow> ColEq ''key'' (PStr s)])]"
    using assms(1) lc
    by (simp add: traffic_def DatabaseConnection_update_def Let_def split: option.splits sum.splits)
  have d: "traffic (DatabaseConnection_delete E name s) w
      = [SqlCall (Delete name
           [case uuid_parse E s of Some u \<Rightarrow> ColEq ''id'' (PUuid u) | None \<Rightarrow> ColEq ''key'' (PStr s)])]"
    using assms(1) lc
    by (simp add: traffic_def DatabaseConnection_delete_def Let_def split: option.splits sum.splits)
  from lc g u d show ?thesis by simp
qed

theorem lookup_by_id_then_key_witness:
  "get_table demo_world ''prompts'' = Inr prompts_table
   \<and> ''id'' \<in> set (columns prompts_table) \<and> ''key'' \<in> set (columns prompts_table)
   \<and> uuid_parse ref_env root_id = Some (UUID root_id)
   \<and> traffic (DatabaseConnection_get ref_env ''prompts'' root_id (Some (Model ''Prompt'')))
         demo_world
       = [SqlCall (Select ''prompts'' [ColEq ''id'' (PUuid (UUID root_id))])]
   \<and> uuid_parse ref_env ''greeting'' = None
   \<and> traffic (DatabaseConnection_delete ref_env ''prompts'' ''greeting'') demo_world
       = [SqlCall (Delete ''prompts'' [ColEq ''key'' (PStr ''greeting'')])]
   \<and> traffic (DatabaseConnection_update ref_env ''prompts'' ''greeting'' rename_update
         (Some (Model ''Prompt''))) demo_world
       = [SqlCall (Update ''prompts'' [ColEq ''key'' (PStr ''greeting'')] [(''name'', PStr ''Renamed'')]),
          SqlCall (Select ''prompts'' [ColEq ''key'' (PStr ''greeting'')])]"
proof -
  note r1 = lookup_by_id_then_key [OF demo_tables(2) prompts_columns(1,2), where E = ref_env
      and s = root_id and mc = "Some (Model ''Prompt'')"]
  note r2 = lookup_by_id_then_key [OF demo_tables(2) prompts_columns(1,2), where E = ref_env
      and s = "''greeting''" and mc = "Some (Model ''Prompt'')" and data = rename_update]
  have d: "db_model_to_dict rename_update = [(''name'', PStr ''Renamed'')]"
    by (simp add: db_model_to_dict_def rename_update_def)
  from r1 r2 d show ?thesis
    by (simp add: demo_tables prompts_columns parse_demo_ids)
qed

section \<open>HTTP status to error\<close>

lemma str_int_500: "str_int 500 = ''500''"
  by code_simp

lemma error_body_not_an_object:
  "handle_response E \<lparr>status_code = 500, json_body = Inr (PList []), resp_text = ''[]'',
      reason = ''Internal Server Error''\<rparr> cls
   = Inl (Exn AttributeError
       (PStr (repr_str ''list'' @ '' object has no attribute '' @ repr_str ''get'')))"
  by (simp add: handle_response_def raises_for_status_def error_detail_def type_name_def)

text \<open>
  C4, as stated, fails for a status that is neither 2xx nor an error for
  \<open>raise_for_status\<close>: a 300 response with a JSON body raises nothing and its body is
  returned.
\<close>

theorem non_2xx_without_error:
  "handle_response ref_env multiple_choices None = Inr (Raw (PDict []))"
  by (simp add: handle_response_def raises_for_status_def multiple_choices_def)

text \<open>
  C4, amended.  For every HTTP response whose body is not JSON or is a JSON object, with
  \<open>detail\<close> the error detail read from it: status 401 or 403 raises an authentication
  failure, 404 a not-found error, 422 a validation failure, 429 a rate-limit failure, each
  carrying the detail (a default text when the detail is empty); every other status from
  400 to 599 raises a generic API failure whose message holds the status code and the
  detail (the reason phrase when the detail is empty).  A response with any other status,
  2xx but also 1xx and 3xx, is handled exactly as a 200 response: no error comes from the
  status, and with no model class expected its JSON body is returned.
\<close>

theorem status_to_error:
  "(error_detail (json_body r) (resp_text r) = Inr detail \<longrightarrow>
      (status_code r = 401 \<or> status_code r = 403 \<longrightarrow>
         handle_response E r cls
           = Inl (Exn AuthenticationError (py_or detail (PStr ''Authentication failed''))))
    \<and> (status_code r = 404 \<longrightarrow>
         handle_response E r cls
           = Inl (Exn NotFoundError (py_or detail (PStr ''Resource not found''))))
    \<and> (status_code r = 422 \<longrightarrow>
         handle_response E r cls
           = Inl (Exn ValidationError (py_or detail (PStr ''Validation error''))))
    \<and> (status_code r = 429 \<longrightarrow>
         handle_response E r cls
           = Inl (Exn RateLimitError (py_or detail (PStr ''Rate limit exceeded''))))
    \<and> (400 \<le> status_code r \<and> status_code r < 600
         \<and> status_code r \<notin> {401, 403, 404, 422, 429} \<longrightarrow>
         handle_response E r cls
           = Inl (Exn APIError (PStr (''API error: '' @ str_int (status_code r) @ '' - ''
                    @ py_str (py_or detail (PStr (reason r))))))))
   \<and> (status_code r < 400 \<or> 600 \<le> status_code r \<longrightarrow>
         handle_response E r cls = handle_response E (r\<lparr>status_code := 200\<rparr>) cls
       \<and> (\<forall>data. json_body r = Inr data \<longrightarrow> handle_response E r None = Inr (Raw data)))"
  by (auto simp add: handle_response_def raises_for_status_def)

theorem status_to_error_witness:
  "error_detail (json_body server_error) (resp_text server_error) = Inr (PStr ''boom'')
   \<and> 400 \<le> status_code server_error \<and> status_code server_error < 600
   \<and> status_code server_error \<notin> {401, 403, 404, 422, 429}
   \<and> handle_response ref_env server_error None = Inl (Exn APIError (PStr ''API error: 500 - boom''))
   \<and> error_detail (json_body unauthorized) (resp_text unauthorized) = Inr (PStr '''')
   \<and> status_code unauthorized = 401
   \<and> handle_response ref_env unauthorized None
       = Inl (Exn AuthenticationError (PStr ''Authentication failed''))
   \<and> status_code multiple_choices < 400
   \<and> json_body multiple_choices = Inr (PDict [])
   \<and> handle_response ref_env multiple_choices (Some (Model ''Prompt''))
       = handle_response ref_env (multiple_choices\<lparr>status_code := 200\<rparr>) (Some (Model ''Prompt''))"
proof -
  have d1: "error_detail (json_body server_error) (resp_text server_error) = Inr (PStr ''boom'')"
    by (simp add: error_detail_def server_error_def py_or_def dict_get_def)
  have d2: "error_detail (json_body unauthorized) (resp_text unauthorized) = Inr (PStr '''')"
    by (simp add: error_detail_def unauthorized_def)
  have s1: "status_code server_error = 500" "reason server_error = ''Internal Server Error''"
    by (simp_all add: server_error_def)
  have s2: "status_code unauthorized = 401"
    by (simp add: unauthorized_def)
  have s3: "status_code multiple_choices = 300" "json_body multiple_choices = Inr (PDict [])"
    by (simp_all add: multiple_choices_def)
  note r1 = status_to_error [where r = server_error and detail = "PStr ''boom''"
      and E = ref_env and cls = None]
  note r2 = status_to_error [where r = unauthorized and detail = "PStr ''''"
      and E = ref_env and cls = None]
  note r3 = status_to_error [where r = multiple_choices and E = ref_env
      and cls = "Some (Model ''Prompt'')"]
  have e1: "handle_response ref_env server_error None
      = Inl (Exn APIError (PStr ''API error: 500 - boom''))"
    using r1 d1 s1 by (simp add: py_or_def str_int_500 del: dec.simps)
  have e2: "handle_response ref_env unauthorized None
       = Inl (Exn AuthenticationError (PStr ''Authentication failed''))"
    using r2 d2 s2 by (simp add: py_or_def)
  have e3: "handle_response ref_env multiple_choices (Some (Model ''Prompt''))
       = handle_response ref_env (multiple_choices\<lparr>status_code := 200\<rparr>) (Some (Model ''Prompt''))"
    using r3 s3 by simp
  from d1 d2 s1 s2 s3 e1 e2 e3 show ?thesis by simp
qed

section \<open>Versions of a prompt\<close>

lemma validate_rows:
  "call_class ref_env (Some (Model ''Prompt'')) root_row = Inr root_prompt"
  "call_class ref_env (Some (Model ''Prompt'')) child_row = Inr child_prompt"
  by (simp_all add: call_class_def ref_env_def validate_def declared_def base_fields_def
      root_row_def child_row_def prompt_row_def root_prompt_def child_prompt_def prompt_obj_def
      check_field_def required_def optional_def with_default_def check_value_def hex_uuid_def
      is_hex_def lower_def hyphenate_def root_id_def child_id_def project_id_def)

lemma db_get_world:
  assumes "DatabaseConnection_get E n s mc w = (r, w1)"
  shows "tables w1 = tables w" and "uuid_count w1 = uuid_count w"
  using assms
  by (auto simp add: DatabaseConnection_get_def Let_def emit_def
      split: sum.splits option.splits)

lemma select_one_condition:
  "v \<noteq> PNone \<Longrightarrow>
   run_select E t [ColEq c v]
     = filter (\<lambda>row. dict_get row c PNone \<noteq> PNone \<and> dict_get row c PNone = bind E v) (rows t)"
  unfolding run_select_def by (rule filter_cong) (simp_all add: row_matches_def)

lemma db_list_one_filter:
  assumes "get_table w n = Inr t" and "c \<in> set (columns t)" and "\<not> collection_attr E c"
  shows "DatabaseConnection_list E n mc [(c, v)] w =
     (case map_result (\<lambda>row. row_to_model E row mc) (run_select E t [ColEq c v]) of
        Inl e \<Rightarrow> (Inl e, emit (SqlCall (Select n [ColEq c v])) w)
      | Inr objs \<Rightarrow> (Inr (Objs objs), emit (SqlCall (Select n [ColEq c v])) w))"
  using assms by (simp add: DatabaseConnection_list_def Let_def filter_cond_def)

lemma demo_get_child:
  "DatabaseConnection_get ref_env ''prompts'' child_id (Some (Model ''Prompt'')) demo_world
     = (Inr (Obj child_prompt),
        emit (SqlCall (Select ''prompts'' [ColEq ''id'' (PUuid (UUID child_id))])) demo_world)"
proof -
  have sel: "run_select ref_env prompts_table [ColEq ''id'' (PUuid (UUID child_id))] = [child_row]"
    by (simp add: run_select_def row_matches_def prompts_table_def root_row_def child_row_def
        prompt_row_def dict_get_def ref_bind root_id_def child_id_def)
  show ?thesis
    by (simp add: DatabaseConnection_get_def demo_tables lookup_condition_columns
        prompts_columns parse_demo_ids sel fetchone_def row_to_model_def validate_rows)
qed

lemma demo_children_of_root:
  "filter (\<lambda>row. dict_get row ''parent_id'' PNone \<noteq> PNone
                 \<and> dict_get row ''parent_id'' PNone = PStr root_id)
     (rows prompts_table) = [child_row]"
  by (simp add: prompts_table_def root_row_def child_row_def prompt_row_def dict_get_def)

lemma child_prompt_attrs:
  "getattr (Obj child_prompt) ''parent_id'' = Inr (PUuid (UUID root_id))"
  "getattr (Obj child_prompt) ''id'' = Inr (PUuid (UUID child_id))"
  by (simp_all add: getattr_def child_prompt_def prompt_obj_def)

lemma get_versions_db:
  assumes "ResourceBase_init Prompts_class (Some d) None = Inr self"
    and "DatabaseConnection_get E ''prompts'' (py_str x) (Some (Model ''Prompt'')) w
           = (Inr (Obj p), w1)"
    and "getattr (Obj p) ''parent_id'' = Inr parent"
    and "getattr (Obj p) ''id'' = Inr ident"
  shows "Prompts_get_versions E self x w =
      DatabaseConnection_list E ''prompts'' (Some (Model ''Prompt''))
        [(''parent_id'', if truthy parent then parent else ident)] w1"
proof -
  note f = init_Inr [OF assms(1)]
  have rn: "resource_name self = ''prompts''"
    using f by (simp add: Prompts_class_def)
  have s1: "Prompts_get_versions E self x w =
      bind_io (DatabaseConnection_get E ''prompts'' (py_str x) (Some (Model ''Prompt'')))
        (\<lambda>prompt.
           bind_io (lift_io (getattr prompt ''parent_id''))
             (\<lambda>parent_id.
                bind_io (if truthy parent_id then return_io parent_id
                         else lift_io (getattr prompt ''id''))
                  (\<lambda>root_id.
                     DatabaseConnection_list E ''prompts'' (Some (Model ''Prompt''))
                       [(''parent_id'', root_id)]))) w"
    using f(1,3) rn
    by (simp add: Prompts_get_versions_def Let_def self_db_def Option.is_none_def
        get_id_from_arg_def)
  show ?thesis
    unfolding s1 using assms(2,3,4)
    by (simp add: bind_io_def return_io_def lift_io_def)
qed

text \<open>
  C5, as stated, fails on the smallest lineage, a root prompt and one version of it, read
  through a driver that binds a UUID as its text: \<open>get_versions\<close> called with the
  version's id returns the version alone, and the root is not in the result.
\<close>

theorem get_versions_omits_root:
  "bind ref_env (PUuid (UUID child_id)) = PStr child_id
   \<and> bind ref_env (PUuid (UUID root_id)) = PStr root_id
   \<and> Prompts_get_versions ref_env (dispatcher Prompts_class (Some demo_db) None)
          (PStr child_id) demo_world
       = (Inr (Objs [child_prompt]),
          emit (SqlCall (Select ''prompts'' [ColEq ''parent_id'' (PUuid (UUID root_id))]))
            (emit (SqlCall (Select ''prompts'' [ColEq ''id'' (PUuid (UUID child_id))]))
               demo_world))
   \<and> root_prompt \<notin> set [child_prompt]"
proof -
  let ?w1 = "emit (SqlCall (Select ''prompts'' [ColEq ''id'' (PUuid (UUID child_id))])) demo_world"
  have t1: "get_table ?w1 ''prompts'' = Inr prompts_table"
    by (simp add: get_table_def demo_world_def emit_def)
  have c: "\<not> collection_attr ref_env ''parent_id''"
    by (simp add: ref_collection_attr)
  have i: "ResourceBase_init Prompts_class (Some demo_db) None
     = Inr (dispatcher Prompts_class (Some demo_db) None)"
    by (rule init_dispatcher) simp
  have g: "DatabaseConnection_get ref_env ''prompts'' (py_str (PStr child_id))
      (Some (Model ''Prompt'')) demo_world = (Inr (Obj child_prompt), ?w1)"
    by (simp add: demo_get_child)
  have "Prompts_get_versions ref_env (dispatcher Prompts_class (Some demo_db) None)
          (PStr child_id) demo_world
      = DatabaseConnection_list ref_env ''prompts'' (Some (Model ''Prompt''))
          [(''parent_id'', PUuid (UUID root_id))] ?w1"
    using get_versions_db [OF i g child_prompt_attrs] by simp
  then have "Prompts_get_versions ref_env (dispatcher Prompts_class (Some demo_db) None)
          (PStr child_id) demo_world
       = (Inr (Objs [child_prompt]),
          emit (SqlCall (Select ''prompts'' [ColEq ''parent_id'' (PUuid (UUID root_id))])) ?w1)"
    by (simp add: db_list_one_filter [OF t1 prompts_columns(3) c] select_one_condition ref_bind
        demo_children_of_root row_to_model_def validate_rows)
  moreover have "root_prompt \<notin> set [child_prompt]"
    by (simp add: root_prompt_def child_prompt_def prompt_obj_def)
  ultimately show ?thesis by (simp add: ref_bind)
qed

text \<open>
  C5, amended.  Under database mode, \<open>get_versions\<close> called with the id or key of a
  stored prompt that has an identifier first reads that prompt and then issues one query,
  for the prompts whose parent reference equals the root id, where the root id is the
  prompt's parent reference when it has one and its own identifier otherwise; it returns
  what \<open>list\<close> returns for that query.  Whatever the driver makes of the root id, a row
  without a parent reference, the row of the lineage root included, is never selected;
  where the driver presents the root id to the database as the value \<open>b\<close>, the result is
  built from exactly the rows whose parent reference is stored as \<open>b\<close>.
\<close>

theorem get_versions_lists_children_of_root:
  assumes "ResourceBase_init Prompts_class (Some d) None = Inr self"
    and "get_table w ''prompts'' = Inr t"
    and "''parent_id'' \<in> set (columns t)"
    and "\<not> collection_attr E ''parent_id''"
    and "DatabaseConnection_get E ''prompts'' (py_str x) (Some (Model ''Prompt'')) w
           = (Inr (Obj p), w1)"
    and "getattr (Obj p) ''parent_id'' = Inr parent"
    and "getattr (Obj p) ''id'' = Inr ident"
    and "ident \<noteq> PNone"
    and "root = (if truthy parent then parent else ident)"
    and "bind E root = b"
  shows "Prompts_get_versions E self x w =
           DatabaseConnection_list E ''prompts'' (Some (Model ''Prompt''))
             [(''parent_id'', root)] w1
   \<and> log (snd (Prompts_get_versions E self x w))
       = log w1 @ [SqlCall (Select ''prompts'' [ColEq ''parent_id'' root])]
   \<and> (\<forall>row. dict_get row ''parent_id'' PNone = PNone \<longrightarrow>
          row \<notin> set (run_select E t [ColEq ''parent_id'' root]))
   \<and> fst (Prompts_get_versions E self x w) =
       (case map_result (\<lambda>row. row_to_model E row (Some (Model ''Prompt'')))
               (filter (\<lambda>row. dict_get row ''parent_id'' PNone \<noteq> PNone
                              \<and> dict_get row ''parent_id'' PNone = b) (rows t)) of
          Inl e \<Rightarrow> Inl e
        | Inr objs \<Rightarrow> Inr (Objs objs))"
proof -
  have t1: "get_table w1 ''prompts'' = Inr t"
    using db_get_world(1) [OF assms(5)] assms(2) by (simp add: get_table_def)
  have nz: "root \<noteq> PNone"
    unfolding assms(9) using assms(8) by (cases parent) auto
  have a: "Prompts_get_versions E self x w =
      DatabaseConnection_list E ''prompts'' (Some (Model ''Prompt'')) [(''parent_id'', root)] w1"
    using get_versions_db [OF assms(1,5,6,7)] assms(9) by simp
  note l = db_list_one_filter [OF t1 assms(3,4), where v = root and mc = "Some (Model ''Prompt'')"]
  have b: "log (snd (Prompts_get_versions E self x w))
       = log w1 @ [SqlCall (Select ''prompts'' [ColEq ''parent_id'' root])]"
    unfolding a l by (simp add: emit_def split: sum.splits)
  have c: "\<forall>row. dict_get row ''parent_id'' PNone = PNone \<longrightarrow>
          row \<notin> set (run_select E t [ColEq ''parent_id'' root])"
    by (simp add: select_one_condition [OF nz])
  have d: "fst (Prompts_get_versions E self x w) =
       (case map_result (\<lambda>row. row_to_model E row (Some (Model ''Prompt'')))
               (filter (\<lambda>row. dict_get row ''parent_id'' PNone \<noteq> PNone
                              \<and> dict_get row ''parent_id'' PNone = b) (rows t)) of
          Inl e \<Rightarrow> Inl e
        | Inr objs \<Rightarrow> Inr (Objs objs))"
    unfolding a l select_one_condition [OF nz] assms(10) by (simp split: sum.splits)
  from a b c d show ?thesis by blast
qed

theorem get_versions_lists_children_of_root_witness:
  "ResourceBase_init Prompts_class (Some demo_db) None
     = Inr (dispatcher Prompts_class (Some demo_db) None)
   \<and> get_table demo_world ''prompts'' = Inr prompts_table
   \<and> ''parent_id'' \<in> set (columns prompts_table)
   \<and> \<not> collection_attr ref_env ''parent_id''
   \<and> getattr (Obj child_prompt) ''parent_id'' = Inr (PUuid (UUID root_id))
   \<and> getattr (Obj child_prompt) ''id'' = Inr (PUuid (UUID child_id))
   \<and> PUuid (UUID child_id) \<noteq> PNone
   \<and> bind ref_env (PUuid (UUID root_id)) = PStr root_id
   \<and> log (snd (Prompts_get_versions ref_env (dispatcher Prompts_class (Some demo_db) None)
        (PStr child_id) demo_world))
      = [SqlCall (Select ''prompts'' [ColEq ''id'' (PUuid (UUID child_id))]),
         SqlCall (Select ''prompts'' [ColEq ''parent_id'' (PUuid (UUID root_id))])]
   \<and> fst (Prompts_get_versions ref_env (dispatcher Prompts_class (Some demo_db) None)
        (PStr child_id) demo_world) = Inr (Objs [child_prompt])
   \<and> dict_get root_row ''parent_id'' PNone = PNone
   \<and> root_row \<notin> set (run_select ref_env prompts_table
                         [ColEq ''parent_id'' (PUuid (UUID root_id))])"
proof -
  let ?w1 = "emit (SqlCall (Select ''prompts'' [ColEq ''id'' (PUuid (UUID child_id))])) demo_world"
  have i: "ResourceBase_init Prompts_class (Some demo_db) None
     = Inr (dispatcher Prompts_class (Some demo_db) None)"
    by (rule init_dispatcher) simp
  have c: "\<not> collection_attr ref_env ''parent_id''"
    by (simp add: ref_collection_attr)
  have g: "DatabaseConnection_get ref_env ''prompts'' (py_str (PStr child_id))
      (Some (Model ''Prompt'')) demo_world = (Inr (Obj child_prompt), ?w1)"
    by (simp add: demo_get_child)
  have r: "PUuid (UUID root_id)
      = (if truthy (PUuid (UUID root_id)) then PUuid (UUID root_id) else PUuid (UUID child_id))"
    by simp
  have n: "PUuid (UUID child_id) \<noteq> PNone"
    by simp
  have b: "bind ref_env (PUuid (UUID root_id)) = PStr root_id"
    by (simp add: ref_bind)
  have p0: "dict_get root_row ''parent_id'' PNone = PNone"
    by (simp add: root_row_def prompt_row_def dict_get_def)
  note th = get_versions_lists_children_of_root
    [OF i demo_tables(2) prompts_columns(3) c g child_prompt_attrs n r b]
  from th [THEN conjunct2, THEN conjunct1] have l: "log (snd (Prompts_get_versions ref_env
        (dispatcher Prompts_class (Some demo_db) None) (PStr child_id) demo_world))
      = [SqlCall (Select ''prompts'' [ColEq ''id'' (PUuid (UUID child_id))]),
         SqlCall (Select ''prompts'' [ColEq ''parent_id'' (PUuid (UUID root_id))])]"
    by (simp add: emit_def demo_world_def)
  from th [THEN conjunct2, THEN conjunct2, THEN conjunct2]
  have e: "fst (Prompts_get_versions ref_env (dispatcher Prompts_class (Some demo_db) None)
        (PStr child_id) demo_world) = Inr (Objs [child_prompt])"
    by (simp add: demo_children_of_root row_to_model_def validate_rows)
  from th [THEN conjunct2, THEN conjunct2, THEN conjunct1] p0 have x: "root_row \<notin> set (run_select ref_env prompts_table
                         [ColEq ''parent_id'' (PUuid (UUID root_id))])"
    by blast
  from i demo_tables(2) prompts_columns(3) c child_prompt_attrs n b l e p0 x show ?thesis
    by simp
qed

section \<open>Creating a version\<close>















end
